theory Spec2Isabelle
  imports Main
begin

section \<open>Values exchanged by the scripts\<close>

text \<open>
  The repository is a set of one-shot scripts around an external account-abstraction
  client. Addresses, hashes and call data are hexadecimal strings in the source
  (\<^verbatim>\<open>`0x${string}`\<close>); token amounts are \<^verbatim>\<open>bigint\<close>, nonces are \<^verbatim>\<open>number\<close>.
\<close>

type_synonym address = string
type_synonym hex = string

text \<open>A call descriptor \<^verbatim>\<open>{ to, value, data }\<close>.\<close>

record call =
  call_to :: address
  call_value :: int
  call_data :: hex

text \<open>The argument of \<^verbatim>\<open>owner.signAuthorization\<close> and the signed object it returns.\<close>

record authorization_request =
  contractAddress :: address
  chainId :: nat
  nonce :: nat

record signed_authorization = authorization_request +
  signature :: hex

text \<open>
  \<^verbatim>\<open>txParams\<close>: a call descriptor with the optional key \<^verbatim>\<open>authorization\<close>. The key is
  absent (\<open>None\<close>) unless the script assigns it.
\<close>

record tx_params = call +
  authorization :: "signed_authorization option"

datatype receipt_status = Success | Reverted

record receipt =
  status :: receipt_status
  blockNumber :: nat
  gasUsed :: nat

text \<open>The smart account object and the client object built around it. Objects are
  compared by identity in the source, so each carries the number of its allocation.\<close>

record smart_account =
  account_object :: nat
  account_address :: address

record smart_account_client =
  client_object :: nat
  client_account :: smart_account

section \<open>Errors\<close>

text \<open>
  The scripts throw plain \<^verbatim>\<open>Error\<close> objects for bad configuration and let the rejections
  of the external calls propagate. The constructors name where an error comes from: a
  check of the environment, an address argument that the library's encoder refuses, a
  failed external call (a failed RPC read, a submission the bundler refuses), or the
  receipt wait running into its timeout.
\<close>

datatype error =
    ConfigurationError string
  | InvalidAddressError address
  | TransportError
  | TimeoutError

text \<open>What ends \<^verbatim>\<open>main\<close> early: a thrown error, or \<^verbatim>\<open>process.exit(n)\<close>.\<close>

datatype abort = Thrown error | Exit nat

text \<open>
  One argument of a \<^verbatim>\<open>console.error\<close> call: a string, the \<^verbatim>\<open>message\<close> property of an
  error, or an error object, which the runtime prints with its name, message and stack. A
  call is the list of its arguments. The pictograph, line break or indentation that starts
  a string in the source is left out.
\<close>

datatype console_arg = Text string | MessageOf error | ErrorObject error

section \<open>The process environment\<close>

text \<open>\<^verbatim>\<open>process.env\<close>: a variable is unset (\<open>None\<close>) or holds a string.\<close>

record env =
  PRIVATE_KEY :: "string option"
  SEPOLIA_RPC_URL :: "string option"
  PIMLICO_API_KEY :: "string option"
  ERC20_TOKEN_ADDRESS :: "string option"
  RECEIVER_ADDRESS :: "string option"
  RECEIVER_ADDRESS2 :: "string option"

text \<open>JavaScript's \<^verbatim>\<open>!v\<close> on a value that is a string or \<^verbatim>\<open>undefined\<close>: true for
  \<^verbatim>\<open>undefined\<close> and for the empty string.\<close>

fun falsy :: "string option \<Rightarrow> bool" where
  "falsy None = True"
| "falsy (Some s) = (s = [])"

definition startsWith :: "string \<Rightarrow> string \<Rightarrow> bool" where
  "startsWith s p = (take (length p) s = p)"

section \<open>The chain and the external capabilities\<close>

text \<open>
  The part of the chain state that the scripts read: whether code is present at an address,
  the transaction count of an address (the nonce of an externally owned account), the nonce
  a smart account keeps for its own operations, and the token balances.
\<close>

record chain_state =
  code_at :: "address \<Rightarrow> bool"
  transaction_count :: "address \<Rightarrow> nat"
  account_nonce :: "address \<Rightarrow> nat"
  token_balance :: "address \<Rightarrow> address \<Rightarrow> int"

text \<open>
  Everything the scripts call but do not define (viem, permissionless, the bundler) is a
  parameter. \<open>fault n\<close> says that the external call number \<open>n\<close> of the process is
  rejected; \<open>isAddress\<close> is the address check of viem's encoder; \<open>bundler\<close> answers a
  submission with a transaction hash and the chain state after it, or rejects it;
  \<open>inclusion h t c\<close> is the receipt seen for \<open>h\<close> within \<open>t\<close> milliseconds, if any.
\<close>

record ext =
  fault :: "nat \<Rightarrow> bool"
  isAddress :: "address \<Rightarrow> bool"
  address_of_key :: "string \<Rightarrow> address option"
  account_address_of :: "address \<Rightarrow> address"
  encode_transfer :: "address \<Rightarrow> int \<Rightarrow> hex"
  encode_batch :: "call list \<Rightarrow> hex"
  signature_of :: "address \<Rightarrow> authorization_request \<Rightarrow> hex"
  bundler :: "tx_params \<Rightarrow> chain_state \<Rightarrow> (hex \<times> chain_state) option"
  inclusion :: "hex \<Rightarrow> nat \<Rightarrow> chain_state \<Rightarrow> receipt option"

text \<open>One entry per external call, with its arguments and its answer, in the order made.
  The two constructors of \<^verbatim>\<open>clients.ts\<close> are entered with the object they return.\<close>

datatype event =
    To7702SimpleSmartAccount address smart_account
  | CreateSmartAccountClient smart_account smart_account_client
  | ReadBalanceOf address address "error + int"
  | EncodeTransfer address int "error + hex"
  | IsDeployed address "error + bool"
  | GetTransactionCount address "error + nat"
  | SignAuthorization address authorization_request "error + signed_authorization"
  | EncodeCalls "call list" "error + hex"
  | SendTransaction tx_params "error + hex"
  | WaitForTransactionReceipt hex nat "error + receipt"

text \<open>
  The state of one process: the chain it talks to, the calls made so far, the calls of
  \<^verbatim>\<open>console.error\<close>, the two module-level caches of \<^verbatim>\<open>clients.ts\<close>
  (\<^verbatim>\<open>_simple7702Account\<close>, \<^verbatim>\<open>_smartAccountClient\<close>) and the number of objects
  allocated. \<^verbatim>\<open>console.log\<close> and \<^verbatim>\<open>console.warn\<close> output is not part of the model.
\<close>

record state =
  chain :: chain_state
  events :: "event list"
  stderr :: "console_arg list list"
  simple7702Account_cache :: "smart_account option"
  smartAccountClient_cache :: "smart_account_client option"
  allocated :: nat

type_synonym 'a io = "state \<Rightarrow> (abort + 'a) \<times> state"

definition return_io :: "'a \<Rightarrow> 'a io" where
  "return_io v s = (Inr v, s)"

definition throw_io :: "error \<Rightarrow> 'a io" where
  "throw_io e s = (Inl (Thrown e), s)"

definition bind_io :: "'a io \<Rightarrow> ('a \<Rightarrow> 'b io) \<Rightarrow> 'b io" where
  "bind_io m f s = (case m s of (Inl a, s') \<Rightarrow> (Inl a, s') | (Inr v, s') \<Rightarrow> f v s')"

definition console_error :: "console_arg list \<Rightarrow> unit io" where
  "console_error args s = (Inr (), s\<lparr>stderr := stderr s @ [args]\<rparr>)"

definition process_exit :: "nat \<Rightarrow> 'a io" where
  "process_exit n s = (Inl (Exit n), s)"

text \<open>The answer the process sees to its external call number \<open>n\<close>: a transport error
  when that call is rejected, otherwise the answer \<open>a\<close> of the capability.\<close>

definition answered :: "ext \<Rightarrow> nat \<Rightarrow> error + 'a \<Rightarrow> error + 'a" where
  "answered x n a = (if fault x n then Inl TransportError else a)"

text \<open>An external call that is not awaited yet: it is entered in \<open>events\<close> with its
  answer, which is what its promise settles to.\<close>

definition request ::
  "ext \<Rightarrow> ((error + 'a) \<Rightarrow> event) \<Rightarrow> (error + 'a) \<Rightarrow> state \<Rightarrow> (error + 'a) \<times> state" where
  "request x ev answer s =
     (let r = answered x (length (events s)) answer
      in (r, s\<lparr>events := events s @ [ev r]\<rparr>))"

text \<open>An awaited external call: a rejected call throws.\<close>

definition external :: "ext \<Rightarrow> ((error + 'a) \<Rightarrow> event) \<Rightarrow> (error + 'a) \<Rightarrow> 'a io" where
  "external x ev answer s =
     (let r = answered x (length (events s)) answer
      in (case r of Inl e \<Rightarrow> Inl (Thrown e) | Inr v \<Rightarrow> Inr v,
          s\<lparr>events := events s @ [ev r]\<rparr>))"

text \<open>
  viem encodes an address argument of a contract call only when its address check accepts
  the string, and throws \<^verbatim>\<open>InvalidAddressError\<close> otherwise. This holds for the holder
  passed to \<^verbatim>\<open>balanceOf\<close> and for the recipient passed to \<^verbatim>\<open>transfer\<close>.
\<close>

definition address_argument :: "ext \<Rightarrow> address \<Rightarrow> 'a \<Rightarrow> error + 'a" where
  "address_argument x a v = (if isAddress x a then Inr v else Inl (InvalidAddressError a))"

subsection \<open>Chain reads, signing, encoding\<close>

text \<open>Modelled from the spec: \<^verbatim>\<open>account.isDeployed()\<close> of the external account object,
  which the spec describes as querying on-chain code presence at the account address
  against the current chain state, not cached.\<close>

definition isDeployed :: "ext \<Rightarrow> smart_account \<Rightarrow> bool io" where
  "isDeployed x a s =
     external x (IsDeployed (account_address a)) (Inr (code_at (chain s) (account_address a))) s"

definition getTransactionCount :: "ext \<Rightarrow> address \<Rightarrow> nat io" where
  "getTransactionCount x a s =
     external x (GetTransactionCount a) (Inr (transaction_count (chain s) a)) s"

definition readContract_balanceOf :: "ext \<Rightarrow> address \<Rightarrow> address \<Rightarrow> int io" where
  "readContract_balanceOf x token holder s =
     external x (ReadBalanceOf token holder)
       (address_argument x holder (token_balance (chain s) token holder)) s"

definition signAuthorization :: "ext \<Rightarrow> address \<Rightarrow> authorization_request \<Rightarrow> signed_authorization io" where
  "signAuthorization x signer req =
     external x (SignAuthorization signer req)
       (Inr \<lparr>contractAddress = contractAddress req, chainId = chainId req, nonce = nonce req,
             signature = signature_of x signer req\<rparr>)"

definition encodeFunctionData_transfer :: "ext \<Rightarrow> address \<Rightarrow> int \<Rightarrow> hex io" where
  "encodeFunctionData_transfer x recipient amount =
     external x (EncodeTransfer recipient amount)
       (address_argument x recipient (encode_transfer x recipient amount))"

definition encodeCalls :: "ext \<Rightarrow> call list \<Rightarrow> hex io" where
  "encodeCalls x cs = external x (EncodeCalls cs) (Inr (encode_batch x cs))"

text \<open>\<^verbatim>\<open>smartAccountClient.sendTransaction\<close>: on success the chain moves to the state the
  bundler reports.\<close>

definition sendTransaction :: "ext \<Rightarrow> tx_params \<Rightarrow> hex io" where
  "sendTransaction x p s =
     (case external x (SendTransaction p)
             (case bundler x p (chain s) of None \<Rightarrow> Inl TransportError | Some (h, c) \<Rightarrow> Inr h) s of
        (Inl a, s') \<Rightarrow> (Inl a, s')
      | (Inr h, s') \<Rightarrow>
          (Inr h, case bundler x p (chain s) of None \<Rightarrow> s' | Some (h', c) \<Rightarrow> s'\<lparr>chain := c\<rparr>))"

definition waitForTransactionReceipt :: "ext \<Rightarrow> hex \<Rightarrow> nat \<Rightarrow> receipt io" where
  "waitForTransactionReceipt x h timeout s =
     external x (WaitForTransactionReceipt h timeout)
       (case inclusion x h timeout (chain s) of None \<Rightarrow> Inl TimeoutError | Some r \<Rightarrow> Inr r) s"

text \<open>
  \<^verbatim>\<open>Promise.all\<close> over balance reads: every read is issued, in array order, and the
  result is rejected when one of them is. When several reads are rejected,
  \<^verbatim>\<open>Promise.all\<close> reports the rejection that settles first; the model takes the first in
  array order.
\<close>

fun read_each :: "ext \<Rightarrow> address \<Rightarrow> address list \<Rightarrow> state \<Rightarrow> (error + int) list \<times> state" where
  "read_each x token [] s = ([], s)"
| "read_each x token (h # hs) s =
     (case request x (ReadBalanceOf token h)
             (address_argument x h (token_balance (chain s) token h)) s of
        (r, s1) \<Rightarrow> (case read_each x token hs s1 of (rs, s2) \<Rightarrow> (r # rs, s2)))"

fun settle_all :: "(error + 'a) list \<Rightarrow> error + 'a list" where
  "settle_all [] = Inr []"
| "settle_all (Inl e # rs) = Inl e"
| "settle_all (Inr v # rs) = (case settle_all rs of Inl e \<Rightarrow> Inl e | Inr vs \<Rightarrow> Inr (v # vs))"

definition read_balances :: "ext \<Rightarrow> address \<Rightarrow> address list \<Rightarrow> int list io" where
  "read_balances x token holders s =
     (case read_each x token holders s of
        (rs, s') \<Rightarrow> (case settle_all rs of Inl e \<Rightarrow> Inl (Thrown e) | Inr vs \<Rightarrow> Inr vs, s'))"

section \<open>\<^verbatim>\<open>clients.ts\<close>: the cached account and client\<close>

text \<open>
  The two constructors of permissionless. The account is built from the public client and
  the owner that the modules have loaded, the client around the account. Each call
  allocates a new object; neither is modelled as failing.
\<close>

definition to7702SimpleSmartAccount :: "ext \<Rightarrow> address \<Rightarrow> state \<Rightarrow> smart_account \<times> state" where
  "to7702SimpleSmartAccount x owner s =
     (let a = \<lparr>account_object = allocated s, account_address = account_address_of x owner\<rparr>
      in (a, s\<lparr>events := events s @ [To7702SimpleSmartAccount owner a],
                allocated := Suc (allocated s)\<rparr>))"

definition createSmartAccountClient ::
  "ext \<Rightarrow> smart_account \<Rightarrow> state \<Rightarrow> smart_account_client \<times> state" where
  "createSmartAccountClient x account s =
     (let c = \<lparr>client_object = allocated s, client_account = account\<rparr>
      in (c, s\<lparr>events := events s @ [CreateSmartAccountClient account c],
                allocated := Suc (allocated s)\<rparr>))"

text \<open>
  \<^verbatim>\<open>getSimple7702Account\<close> is an \<^verbatim>\<open>async\<close> function with one \<^verbatim>\<open>await\<close>. Up to the
  \<^verbatim>\<open>await\<close> it runs at once: it returns the cached object when there is one, otherwise it
  calls the constructor and stops there. When it resumes it stores the constructed object
  in the cache and returns it.
\<close>

datatype account_call = Returned smart_account | Awaiting smart_account

definition getSimple7702Account_start :: "ext \<Rightarrow> address \<Rightarrow> state \<Rightarrow> account_call \<times> state" where
  "getSimple7702Account_start x owner s =
     (case simple7702Account_cache s of
        Some a \<Rightarrow> (Returned a, s)
      | None \<Rightarrow> (case to7702SimpleSmartAccount x owner s of (a, s') \<Rightarrow> (Awaiting a, s')))"

fun getSimple7702Account_resume :: "account_call \<Rightarrow> state \<Rightarrow> smart_account \<times> state" where
  "getSimple7702Account_resume (Returned a) s = (a, s)"
| "getSimple7702Account_resume (Awaiting a) s = (a, s\<lparr>simple7702Account_cache := Some a\<rparr>)"



text \<open>
  \<^verbatim>\<open>getSmartAccountClient\<close> is an \<^verbatim>\<open>async\<close> function as well. Up to its \<^verbatim>\<open>await\<close> it
  returns the cached client when there is one, otherwise it starts
  \<^verbatim>\<open>getSimple7702Account()\<close> and stops there. When it resumes, the account call has resumed
  and returned the account; the client is constructed around it, stored in the cache and
  returned.
\<close>

datatype client_call = ReturnedClient smart_account_client | AwaitingAccount account_call

definition getSmartAccountClient_start :: "ext \<Rightarrow> address \<Rightarrow> state \<Rightarrow> client_call \<times> state" where
  "getSmartAccountClient_start x owner s =
     (case smartAccountClient_cache s of
        Some c \<Rightarrow> (ReturnedClient c, s)
      | None \<Rightarrow> (case getSimple7702Account_start x owner s of (k, s') \<Rightarrow> (AwaitingAccount k, s')))"

fun getSmartAccountClient_resume ::
  "ext \<Rightarrow> client_call \<Rightarrow> state \<Rightarrow> smart_account_client \<times> state" where
  "getSmartAccountClient_resume x (ReturnedClient c) s = (c, s)"
| "getSmartAccountClient_resume x (AwaitingAccount k) s =
     (case getSimple7702Account_resume k s of (account, s1) \<Rightarrow>
      case createSmartAccountClient x account s1 of
        (c, s2) \<Rightarrow> (c, s2\<lparr>smartAccountClient_cache := Some c\<rparr>))"

text \<open>An awaited call, \<^verbatim>\<open>await getSmartAccountClient()\<close>.\<close>

definition getSmartAccountClient :: "ext \<Rightarrow> address \<Rightarrow> smart_account_client io" where
  "getSmartAccountClient x owner s =
     (case getSmartAccountClient_start x owner s of
        (k, s1) \<Rightarrow> (case getSmartAccountClient_resume x k s1 of (c, s2) \<Rightarrow> (Inr c, s2)))"








section \<open>Start of a process\<close>

text \<open>
  Loading the modules \<^verbatim>\<open>publicClient.ts\<close>, \<^verbatim>\<open>owner.ts\<close> and \<^verbatim>\<open>clients.ts\<close>, in the
  order the two transfer scripts import them. Each checks its variable when it is loaded and
  throws before \<^verbatim>\<open>main\<close> runs. \<open>address_of_key\<close> is viem's \<^verbatim>\<open>privateKeyToAccount\<close>,
  which throws on a malformed key; its message is the library's, \<open>''invalid private key''\<close>
  stands for it.
\<close>

definition load_modules :: "ext \<Rightarrow> env \<Rightarrow> error + address" where
  "load_modules x e =
     (if falsy (SEPOLIA_RPC_URL e) then Inl (ConfigurationError ''SEPOLIA_RPC_URL is missing in .env'')
      else (case PRIVATE_KEY e of
        None \<Rightarrow> Inl (ConfigurationError ''PRIVATE_KEY is missing in .env'')
      | Some privateKey \<Rightarrow>
          (if privateKey = [] then Inl (ConfigurationError ''PRIVATE_KEY is missing in .env'')
           else (if \<not> startsWith privateKey ''0x'' then Inl (ConfigurationError ''PRIVATE_KEY must start with 0x'')
           else (case address_of_key x privateKey of
             None \<Rightarrow> Inl (ConfigurationError ''invalid private key'')
           | Some owner \<Rightarrow>
               (if falsy (PIMLICO_API_KEY e) then Inl (ConfigurationError ''PIMLICO_API_KEY is missing in .env'')
                else Inr owner))))))"

definition init_state :: "chain_state \<Rightarrow> state" where
  "init_state c =
     \<lparr>chain = c, events = [], stderr = [], simple7702Account_cache = None,
      smartAccountClient_cache = None, allocated = 0\<rparr>"

text \<open>What is seen of a finished process.\<close>

record result =
  exit_code :: nat
  trace :: "event list"
  diagnostics :: "console_arg list list"
  final_chain :: chain_state

section \<open>The parts the two transfer scripts share\<close>

definition SIMPLE_ACCOUNT_LOGIC_ADDRESS :: address where
  "SIMPLE_ACCOUNT_LOGIC_ADDRESS = ''0xe6Cae83BdE06E4c305530e199D7217f42808555B''"

text \<open>\<^verbatim>\<open>sepolia.id\<close> of \<^verbatim>\<open>viem/chains\<close>; \<^verbatim>\<open>clients.ts\<close> spells the number out.\<close>

definition sepolia_id :: nat where
  "sepolia_id = 11155111"

text \<open>The string a truthy environment value holds (the \<^verbatim>\<open>as `0x${string}`\<close> cast).\<close>

fun env_string :: "string option \<Rightarrow> string" where
  "env_string None = []"
| "env_string (Some s) = s"

text \<open>
  "Prepare authorization if needed": when the account was seen not deployed, read the
  transaction count at \<^verbatim>\<open>owner.address\<close> and sign an authorization with it; otherwise the
  variable stays \<^verbatim>\<open>undefined\<close>.
\<close>

definition prepare_authorization :: "ext \<Rightarrow> address \<Rightarrow> bool \<Rightarrow> signed_authorization option io" where
  "prepare_authorization x owner deployed =
     (if \<not> deployed then
        bind_io (getTransactionCount x owner) (\<lambda>n.
        bind_io (signAuthorization x owner
                   \<lparr>contractAddress = SIMPLE_ACCOUNT_LOGIC_ADDRESS, chainId = sepolia_id, nonce = n\<rparr>) (\<lambda>a.
        return_io (Some a)))
      else return_io None)"

text \<open>\<^verbatim>\<open>if (authorization) { txParams.authorization = authorization }\<close>: a signed
  authorization is an object, hence truthy.\<close>

fun with_authorization :: "tx_params \<Rightarrow> signed_authorization option \<Rightarrow> tx_params" where
  "with_authorization p None = p"
| "with_authorization p (Some a) = p\<lparr>authorization := Some a\<rparr>"

fun show_bool :: "bool \<Rightarrow> string" where
  "show_bool True = ''true''"
| "show_bool False = ''false''"

text \<open>The \<^verbatim>\<open>try { ... sendTransaction ... } catch\<close> block: a rejected submission is
  reported with debug lines and thrown again.\<close>

definition send_reporting ::
  "ext \<Rightarrow> address \<Rightarrow> smart_account_client \<Rightarrow> bool \<Rightarrow> call \<Rightarrow> signed_authorization option \<Rightarrow> hex io" where
  "send_reporting x owner client deployed c auth s =
     (let txParams = with_authorization
            \<lparr>call_to = call_to c, call_value = call_value c, call_data = call_data c,
             authorization = None\<rparr> auth
      in case sendTransaction x txParams s of
           (Inl (Thrown e), s') \<Rightarrow>
             (Inl (Thrown e),
              s'\<lparr>stderr := stderr s' @
                   [[Text ''Transaction failed:'', MessageOf e],
                    [Text ''Debug info:''],
                    [Text (''Account deployed: '' @ show_bool deployed)],
                    [Text (''Account address: '' @ account_address (client_account client))],
                    [Text (''Owner address: '' @ owner)],
                    [Text (''Authorization included: '' @ show_bool (auth \<noteq> None))]]\<rparr>)
         | r \<Rightarrow> r)"

text \<open>Waiting for the receipt, with the timeout both scripts pass, and the exit on a
  reverted receipt.\<close>

definition await_receipt :: "ext \<Rightarrow> hex \<Rightarrow> receipt io" where
  "await_receipt x hash =
     bind_io (waitForTransactionReceipt x hash 120000) (\<lambda>receipt.
       if status receipt = Reverted then
         bind_io (console_error [Text ''Transaction reverted!'']) (\<lambda>u. process_exit 1)
       else return_io receipt)"

section \<open>The batch transfer script\<close>

text \<open>The checks at the start of \<^verbatim>\<open>main\<close>: the token address and the first receiver are
  refused when falsy or equal to \<^verbatim>\<open>'0x'\<close>, the second receiver only when falsy.\<close>

definition validate_batch :: "env \<Rightarrow> error + address \<times> address \<times> address" where
  "validate_batch e =
     (if falsy (ERC20_TOKEN_ADDRESS e) \<or> ERC20_TOKEN_ADDRESS e = Some ''0x''
      then Inl (ConfigurationError ''ERC20_TOKEN_ADDRESS is missing in .env'')
      else (if falsy (RECEIVER_ADDRESS e) \<or> RECEIVER_ADDRESS e = Some ''0x''
      then Inl (ConfigurationError ''RECEIVER_ADDRESS is missing in .env'')
      else (if falsy (RECEIVER_ADDRESS2 e)
      then Inl (ConfigurationError ''RECEIVER_ADDRESS2 is missing in .env'')
      else Inr (env_string (ERC20_TOKEN_ADDRESS e), env_string (RECEIVER_ADDRESS e),
                env_string (RECEIVER_ADDRESS2 e)))))"

text \<open>
  \<^verbatim>\<open>main\<close> from the deployment check on, with the local array \<^verbatim>\<open>calls\<close> as an argument:
  deployment check, authorization if needed, \<^verbatim>\<open>encodeCalls(calls)\<close>, one submission to the
  account's own address, the receipt wait, the second deployment check after a first
  transaction, the final balance reads.
\<close>

definition batch_flow ::
  "ext \<Rightarrow> address \<Rightarrow> smart_account_client \<Rightarrow> address \<Rightarrow> address \<Rightarrow> address \<Rightarrow> call list \<Rightarrow> receipt io" where
  "batch_flow x owner client tokenAddress receiver1 receiver2 calls =
     bind_io (isDeployed x (client_account client)) (\<lambda>deployed.
     bind_io (prepare_authorization x owner deployed) (\<lambda>auth.
     bind_io (encodeCalls x calls) (\<lambda>batchCallData.
     bind_io (send_reporting x owner client deployed
                \<lparr>call_to = account_address (client_account client), call_value = 0,
                 call_data = batchCallData\<rparr> auth) (\<lambda>hash.
     bind_io (await_receipt x hash) (\<lambda>receipt.
     bind_io (if \<not> deployed
              then bind_io (isDeployed x (client_account client)) (\<lambda>isDeployedAfter. return_io ())
              else return_io ()) (\<lambda>u.
     bind_io (read_balances x tokenAddress
                [account_address (client_account client), receiver1, receiver2]) (\<lambda>balancesAfter.
     return_io receipt)))))))"

definition main_batch :: "ext \<Rightarrow> env \<Rightarrow> address \<Rightarrow> receipt io" where
  "main_batch x e owner =
     (case validate_batch e of
        Inl err \<Rightarrow> throw_io err
      | Inr (tokenAddress, receiver1, receiver2) \<Rightarrow>
          bind_io (getSmartAccountClient x owner) (\<lambda>client.
          bind_io (read_balances x tokenAddress
                     [account_address (client_account client), receiver1, receiver2]) (\<lambda>balancesBefore.
          bind_io (encodeFunctionData_transfer x receiver1 (10 * 10 ^ 18)) (\<lambda>transferData1.
          bind_io (encodeFunctionData_transfer x receiver2 (20 * 10 ^ 18)) (\<lambda>transferData2.
          batch_flow x owner client tokenAddress receiver1 receiver2
            [\<lparr>call_to = tokenAddress, call_value = 0, call_data = transferData1\<rparr>,
             \<lparr>call_to = tokenAddress, call_value = 0, call_data = transferData2\<rparr>])))))"

text \<open>\<^verbatim>\<open>main().catch(...)\<close>: the handler passes the label and the error object to
  \<^verbatim>\<open>console.error\<close>, and the process exits with 1.\<close>

fun finish_batch :: "(abort + 'a) \<times> state \<Rightarrow> result" where
  "finish_batch (Inr v, s) =
     \<lparr>exit_code = 0, trace = events s, diagnostics = stderr s, final_chain = chain s\<rparr>"
| "finish_batch (Inl (Exit n), s) =
     \<lparr>exit_code = n, trace = events s, diagnostics = stderr s, final_chain = chain s\<rparr>"
| "finish_batch (Inl (Thrown err), s) =
     \<lparr>exit_code = 1, trace = events s,
      diagnostics = stderr s @ [[Text ''Fatal error:'', ErrorObject err]],
      final_chain = chain s\<rparr>"

text \<open>One run of the script as a fresh process. An error thrown while the modules load is
  not caught by \<^verbatim>\<open>main().catch\<close>: the runtime prints the error object and exits with
  1.\<close>

definition run_batch :: "ext \<Rightarrow> env \<Rightarrow> chain_state \<Rightarrow> result" where
  "run_batch x e c =
     (case load_modules x e of
        Inl err \<Rightarrow>
          \<lparr>exit_code = 1, trace = [], diagnostics = [[ErrorObject err]], final_chain = c\<rparr>
      | Inr owner \<Rightarrow> finish_batch (main_batch x e owner (init_state c)))"

section \<open>The single transfer script\<close>

definition validate_single :: "env \<Rightarrow> error + address \<times> address" where
  "validate_single e =
     (if falsy (ERC20_TOKEN_ADDRESS e) \<or> ERC20_TOKEN_ADDRESS e = Some ''0x''
      then Inl (ConfigurationError ''ERC20_TOKEN_ADDRESS is missing in .env'')
      else (if falsy (RECEIVER_ADDRESS e) \<or> RECEIVER_ADDRESS e = Some ''0x''
      then Inl (ConfigurationError ''RECEIVER_ADDRESS is missing in .env'')
      else Inr (env_string (ERC20_TOKEN_ADDRESS e), env_string (RECEIVER_ADDRESS e))))"

definition main_single :: "ext \<Rightarrow> env \<Rightarrow> address \<Rightarrow> receipt io" where
  "main_single x e owner =
     (case validate_single e of
        Inl err \<Rightarrow> throw_io err
      | Inr (tokenAddress, receiver) \<Rightarrow>
          bind_io (getSmartAccountClient x owner) (\<lambda>client.
          bind_io (read_balances x tokenAddress
                     [account_address (client_account client), receiver]) (\<lambda>balancesBefore.
          bind_io (encodeFunctionData_transfer x receiver (10 * 10 ^ 18)) (\<lambda>transferData.
          bind_io (isDeployed x (client_account client)) (\<lambda>deployed.
          bind_io (prepare_authorization x owner deployed) (\<lambda>auth.
          bind_io (send_reporting x owner client deployed
                     \<lparr>call_to = tokenAddress, call_value = 0, call_data = transferData\<rparr> auth) (\<lambda>hash.
          bind_io (await_receipt x hash) (\<lambda>receipt.
          bind_io (isDeployed x (client_account client)) (\<lambda>isDeployedAfter.
          bind_io (read_balances x tokenAddress
                     [account_address (client_account client), receiver]) (\<lambda>balancesAfter.
          return_io receipt))))))))))"

text \<open>The handler of this script prints the message of the error and then, in a second
  call, the error object.\<close>

fun finish_single :: "(abort + 'a) \<times> state \<Rightarrow> result" where
  "finish_single (Inr v, s) =
     \<lparr>exit_code = 0, trace = events s, diagnostics = stderr s, final_chain = chain s\<rparr>"
| "finish_single (Inl (Exit n), s) =
     \<lparr>exit_code = n, trace = events s, diagnostics = stderr s, final_chain = chain s\<rparr>"
| "finish_single (Inl (Thrown err), s) =
     \<lparr>exit_code = 1, trace = events s,
      diagnostics = stderr s @
        [[Text ''Error:'', MessageOf err], [Text ''Full error:'', ErrorObject err]],
      final_chain = chain s\<rparr>"

definition run_single :: "ext \<Rightarrow> env \<Rightarrow> chain_state \<Rightarrow> result" where
  "run_single x e c =
     (case load_modules x e of
        Inl err \<Rightarrow>
          \<lparr>exit_code = 1, trace = [], diagnostics = [[ErrorObject err]], final_chain = c\<rparr>
      | Inr owner \<Rightarrow> finish_single (main_single x e owner (init_state c)))"

fun submission :: "event \<Rightarrow> bool" where
  "submission (SendTransaction p r) = True"
| "submission ev = False"

text \<open>The number of submissions among the calls made.\<close>

fun submissions :: "event list \<Rightarrow> nat" where
  "submissions [] = 0"
| "submissions (SendTransaction p r # evs) = Suc (submissions evs)"
| "submissions (ev # evs) = submissions evs"

text \<open>The calls made before the first submission.\<close>

definition before_submission :: "event list \<Rightarrow> event list" where
  "before_submission evs = takeWhile (\<lambda>ev. \<not> submission ev) evs"

section \<open>Example worlds\<close>

text \<open>
  A chain on which nothing is deployed yet, an environment with every variable set, and
  external capabilities that answer every call: the account shares the owner's address,
  addresses are short names and every string passes as an address, the bundler includes
  every submission and deploys the account, the receipt reports success.
  \<open>example_encoding\<close> writes each field of each call with its length in front, so that
  different call lists have different encodings.
\<close>

definition example_chain :: chain_state where
  "example_chain =
     \<lparr>code_at = (\<lambda>a. False), transaction_count = (\<lambda>a. 7), account_nonce = (\<lambda>a. 3),
      token_balance = (\<lambda>t h. 100)\<rparr>"

definition deployed_chain :: chain_state where
  "deployed_chain = example_chain\<lparr>code_at := (\<lambda>a. True)\<rparr>"

definition example_env :: env where
  "example_env =
     \<lparr>PRIVATE_KEY = Some ''0xkey'', SEPOLIA_RPC_URL = Some ''https://rpc'',
      PIMLICO_API_KEY = Some ''key'', ERC20_TOKEN_ADDRESS = Some ''0xT'',
      RECEIVER_ADDRESS = Some ''0xR1'', RECEIVER_ADDRESS2 = Some ''0xR2''\<rparr>"

definition length_prefixed :: "string \<Rightarrow> string" where
  "length_prefixed s = replicate (length s) (CHR ''1'') @ CHR ''0'' # s"

definition example_value :: "int \<Rightarrow> string" where
  "example_value v =
     (if v < 0 then CHR ''-'' else CHR ''+'') # replicate (nat \<bar>v\<bar>) (CHR ''1'') @ [CHR ''0'']"

definition example_call :: "call \<Rightarrow> string" where
  "example_call c =
     CHR ''c'' # length_prefixed (call_to c) @ example_value (call_value c) @
     length_prefixed (call_data c)"

definition example_encoding :: "call list \<Rightarrow> hex" where
  "example_encoding cs = concat (map example_call cs)"

definition example_receipt :: receipt where
  "example_receipt = \<lparr>status = Success, blockNumber = 1, gasUsed = 21000\<rparr>"

definition example_ext :: ext where
  "example_ext =
     \<lparr>fault = (\<lambda>n. False), isAddress = (\<lambda>a. True),
      address_of_key = (\<lambda>k. Some ''0xA1''),
      account_address_of = (\<lambda>a. a),
      encode_transfer = (\<lambda>r n. ''transfer:'' @ r),
      encode_batch = example_encoding,
      signature_of = (\<lambda>a r. ''0xsig''),
      bundler = (\<lambda>p c. Some (''0xhash'', c\<lparr>code_at := (\<lambda>a. True)\<rparr>)),
      inclusion = (\<lambda>h t c. Some example_receipt)\<rparr>"

definition reverting_ext :: ext where
  "reverting_ext = example_ext\<lparr>inclusion := (\<lambda>h t c. Some (example_receipt\<lparr>status := Reverted\<rparr>))\<rparr>"

definition silent_ext :: ext where
  "silent_ext = example_ext\<lparr>inclusion := (\<lambda>h t c. None)\<rparr>"

text \<open>
  A world whose address check asks for what viem's asks for, \<^verbatim>\<open>0x\<close> followed by forty
  hexadecimal digits (the checksum of a mixed-case address is left out), with addresses of
  that shape all written in lower case, and an environment for it in which the second
  receiver is \<^verbatim>\<open>0x\<close>.
\<close>

definition hex_digit :: "char \<Rightarrow> bool" where
  "hex_digit c = (c \<in> set ''0123456789abcdefABCDEF'')"

definition hex_address :: "address \<Rightarrow> bool" where
  "hex_address a = (length a = 42 \<and> take 2 a = ''0x'' \<and> list_all hex_digit (drop 2 a))"

definition checking_owner :: address where
  "checking_owner = ''0xa1a1a1a1a1a1a1a1a1a1a1a1a1a1a1a1a1a1a1a1''"

definition checking_token :: address where
  "checking_token = ''0x1111111111111111111111111111111111111111''"

definition checking_receiver :: address where
  "checking_receiver = ''0x2222222222222222222222222222222222222222''"

definition checking_ext :: ext where
  "checking_ext =
     example_ext\<lparr>isAddress := hex_address, address_of_key := (\<lambda>k. Some checking_owner)\<rparr>"

definition second_receiver_0x :: env where
  "second_receiver_0x =
     example_env\<lparr>ERC20_TOKEN_ADDRESS := Some checking_token,
                  RECEIVER_ADDRESS := Some checking_receiver,
                  RECEIVER_ADDRESS2 := Some ''0x''\<rparr>"

definition example_account :: smart_account where
  "example_account = \<lparr>account_object = 0, account_address = ''0xA1''\<rparr>"

definition example_client :: smart_account_client where
  "example_client = \<lparr>client_object = 1, client_account = example_account\<rparr>"

definition example_request :: authorization_request where
  "example_request =
     \<lparr>contractAddress = SIMPLE_ACCOUNT_LOGIC_ADDRESS, chainId = sepolia_id, nonce = 7\<rparr>"

definition example_authorization :: signed_authorization where
  "example_authorization =
     \<lparr>contractAddress = SIMPLE_ACCOUNT_LOGIC_ADDRESS, chainId = sepolia_id, nonce = 7,
      signature = ''0xsig''\<rparr>"

section \<open>Executing the scripts step by step\<close>

text \<open>
  Each rule runs one step of a script on a state: the call is entered in \<open>events\<close>, a
  rejected call ends the run, an answered call hands its value to the rest of the script.
\<close>

named_theorems step

lemma bind_return [step]: "bind_io (return_io v) f s = f v s"
  by (simp add: bind_io_def return_io_def)

lemma bind_assoc [step]: "bind_io (bind_io m g) f = bind_io m (\<lambda>v. bind_io (g v) f)"
  by (auto simp: bind_io_def fun_eq_iff split: prod.splits sum.splits)

lemma bind_throw [step]: "bind_io (throw_io e) f s = (Inl (Thrown e), s)"
  by (simp add: bind_io_def throw_io_def)

lemma bind_exit [step]: "bind_io (process_exit n) f s = (Inl (Exit n), s)"
  by (simp add: bind_io_def process_exit_def)

lemma bind_console [step]:
  "bind_io (console_error args) f s = f () (s\<lparr>stderr := stderr s @ [args]\<rparr>)"
  by (simp add: bind_io_def console_error_def)

lemma answered_ok [step]: "\<not> fault x n \<Longrightarrow> answered x n a = a"
  by (simp add: answered_def)

lemma answered_rejected [step]: "fault x n \<Longrightarrow> answered x n a = Inl TransportError"
  by (simp add: answered_def)

lemma bind_external:
  "bind_io (external x ev a) f s =
     (if fault x (length (events s))
      then (Inl (Thrown TransportError), s\<lparr>events := events s @ [ev (Inl TransportError)]\<rparr>)
      else (case a of
              Inl e \<Rightarrow> (Inl (Thrown e), s\<lparr>events := events s @ [ev (Inl e)]\<rparr>)
            | Inr v \<Rightarrow> f v (s\<lparr>events := events s @ [ev (Inr v)]\<rparr>)))"
  by (simp add: bind_io_def external_def answered_def Let_def split: sum.splits)

lemma bind_isDeployed [step]:
  "bind_io (isDeployed x a) f s =
     (if fault x (length (events s))
      then (Inl (Thrown TransportError),
            s\<lparr>events := events s @ [IsDeployed (account_address a) (Inl TransportError)]\<rparr>)
      else f (code_at (chain s) (account_address a))
             (s\<lparr>events := events s @
                [IsDeployed (account_address a) (Inr (code_at (chain s) (account_address a)))]\<rparr>))"
  by (simp add: bind_io_def isDeployed_def external_def answered_def Let_def)

lemma bind_getTransactionCount [step]:
  "bind_io (getTransactionCount x a) f s =
     (if fault x (length (events s))
      then (Inl (Thrown TransportError),
            s\<lparr>events := events s @ [GetTransactionCount a (Inl TransportError)]\<rparr>)
      else f (transaction_count (chain s) a)
             (s\<lparr>events := events s @
                [GetTransactionCount a (Inr (transaction_count (chain s) a))]\<rparr>))"
  by (simp add: bind_io_def getTransactionCount_def external_def answered_def Let_def)

lemma bind_signAuthorization [step]:
  "bind_io (signAuthorization x signer req) f s =
     (if fault x (length (events s))
      then (Inl (Thrown TransportError),
            s\<lparr>events := events s @ [SignAuthorization signer req (Inl TransportError)]\<rparr>)
      else f \<lparr>contractAddress = contractAddress req, chainId = chainId req, nonce = nonce req,
               signature = signature_of x signer req\<rparr>
             (s\<lparr>events := events s @
                [SignAuthorization signer req
                   (Inr \<lparr>contractAddress = contractAddress req, chainId = chainId req,
                         nonce = nonce req, signature = signature_of x signer req\<rparr>)]\<rparr>))"
  by (simp add: signAuthorization_def bind_external)

lemma bind_encodeFunctionData [step]:
  "bind_io (encodeFunctionData_transfer x r n) f s =
     (if fault x (length (events s))
      then (Inl (Thrown TransportError),
            s\<lparr>events := events s @ [EncodeTransfer r n (Inl TransportError)]\<rparr>)
      else (if isAddress x r
      then f (encode_transfer x r n)
             (s\<lparr>events := events s @ [EncodeTransfer r n (Inr (encode_transfer x r n))]\<rparr>)
      else (Inl (Thrown (InvalidAddressError r)),
            s\<lparr>events := events s @ [EncodeTransfer r n (Inl (InvalidAddressError r))]\<rparr>)))"
  by (simp add: encodeFunctionData_transfer_def bind_external address_argument_def)

lemma bind_encodeCalls [step]:
  "bind_io (encodeCalls x cs) f s =
     (if fault x (length (events s))
      then (Inl (Thrown TransportError),
            s\<lparr>events := events s @ [EncodeCalls cs (Inl TransportError)]\<rparr>)
      else f (encode_batch x cs)
             (s\<lparr>events := events s @ [EncodeCalls cs (Inr (encode_batch x cs))]\<rparr>))"
  by (simp add: encodeCalls_def bind_external)

lemma bind_waitForTransactionReceipt [step]:
  "bind_io (waitForTransactionReceipt x h t) f s =
     (if fault x (length (events s))
      then (Inl (Thrown TransportError),
            s\<lparr>events := events s @ [WaitForTransactionReceipt h t (Inl TransportError)]\<rparr>)
      else (case inclusion x h t (chain s) of
              None \<Rightarrow> (Inl (Thrown TimeoutError),
                        s\<lparr>events := events s @ [WaitForTransactionReceipt h t (Inl TimeoutError)]\<rparr>)
            | Some r \<Rightarrow> f r (s\<lparr>events := events s @ [WaitForTransactionReceipt h t (Inr r)]\<rparr>)))"
  by (simp add: bind_io_def waitForTransactionReceipt_def external_def answered_def Let_def
           split: option.splits)

lemma read_each3:
  "read_each x t [h1, h2, h3] s =
     ([answered x (length (events s)) (address_argument x h1 (token_balance (chain s) t h1)),
       answered x (Suc (length (events s))) (address_argument x h2 (token_balance (chain s) t h2)),
       answered x (Suc (Suc (length (events s))))
         (address_argument x h3 (token_balance (chain s) t h3))],
      s\<lparr>events := events s @
         [ReadBalanceOf t h1
            (answered x (length (events s)) (address_argument x h1 (token_balance (chain s) t h1))),
          ReadBalanceOf t h2
            (answered x (Suc (length (events s)))
               (address_argument x h2 (token_balance (chain s) t h2))),
          ReadBalanceOf t h3
            (answered x (Suc (Suc (length (events s))))
               (address_argument x h3 (token_balance (chain s) t h3)))]\<rparr>)"
  by (simp add: request_def Let_def)

lemma read_each2:
  "read_each x t [h1, h2] s =
     ([answered x (length (events s)) (address_argument x h1 (token_balance (chain s) t h1)),
       answered x (Suc (length (events s))) (address_argument x h2 (token_balance (chain s) t h2))],
      s\<lparr>events := events s @
         [ReadBalanceOf t h1
            (answered x (length (events s)) (address_argument x h1 (token_balance (chain s) t h1))),
          ReadBalanceOf t h2
            (answered x (Suc (length (events s)))
               (address_argument x h2 (token_balance (chain s) t h2)))]\<rparr>)"
  by (simp add: request_def Let_def)

lemma answered_address [step]:
  "\<not> fault x n \<Longrightarrow> isAddress x a \<Longrightarrow> answered x n (address_argument x a v) = Inr v"
  by (simp add: answered_def address_argument_def)

lemma bind_read_balances3 [step]:
  "bind_io (read_balances x t [h1, h2, h3]) f s =
     (if (\<not> fault x (length (events s)) \<and> isAddress x h1) \<and>
         (\<not> fault x (Suc (length (events s))) \<and> isAddress x h2) \<and>
         (\<not> fault x (Suc (Suc (length (events s)))) \<and> isAddress x h3)
      then f [token_balance (chain s) t h1, token_balance (chain s) t h2, token_balance (chain s) t h3]
            (s\<lparr>events := events s @
               [ReadBalanceOf t h1 (Inr (token_balance (chain s) t h1)),
                ReadBalanceOf t h2 (Inr (token_balance (chain s) t h2)),
                ReadBalanceOf t h3 (Inr (token_balance (chain s) t h3))]\<rparr>)
      else (Inl (Thrown (projl (settle_all
              [answered x (length (events s)) (address_argument x h1 (token_balance (chain s) t h1)),
               answered x (Suc (length (events s)))
                 (address_argument x h2 (token_balance (chain s) t h2)),
               answered x (Suc (Suc (length (events s))))
                 (address_argument x h3 (token_balance (chain s) t h3))]))),
            s\<lparr>events := events s @
               [ReadBalanceOf t h1
                  (answered x (length (events s))
                     (address_argument x h1 (token_balance (chain s) t h1))),
                ReadBalanceOf t h2
                  (answered x (Suc (length (events s)))
                     (address_argument x h2 (token_balance (chain s) t h2))),
                ReadBalanceOf t h3
                  (answered x (Suc (Suc (length (events s))))
                     (address_argument x h3 (token_balance (chain s) t h3)))]\<rparr>))"
  unfolding bind_io_def read_balances_def read_each3
  by (auto simp: answered_def address_argument_def)

lemma bind_read_balances2 [step]:
  "bind_io (read_balances x t [h1, h2]) f s =
     (if (\<not> fault x (length (events s)) \<and> isAddress x h1) \<and>
         (\<not> fault x (Suc (length (events s))) \<and> isAddress x h2)
      then f [token_balance (chain s) t h1, token_balance (chain s) t h2]
            (s\<lparr>events := events s @
               [ReadBalanceOf t h1 (Inr (token_balance (chain s) t h1)),
                ReadBalanceOf t h2 (Inr (token_balance (chain s) t h2))]\<rparr>)
      else (Inl (Thrown (projl (settle_all
              [answered x (length (events s)) (address_argument x h1 (token_balance (chain s) t h1)),
               answered x (Suc (length (events s)))
                 (address_argument x h2 (token_balance (chain s) t h2))]))),
            s\<lparr>events := events s @
               [ReadBalanceOf t h1
                  (answered x (length (events s))
                     (address_argument x h1 (token_balance (chain s) t h1))),
                ReadBalanceOf t h2
                  (answered x (Suc (length (events s)))
                     (address_argument x h2 (token_balance (chain s) t h2)))]\<rparr>))"
  unfolding bind_io_def read_balances_def read_each2
  by (auto simp: answered_def address_argument_def)

lemma bind_send_reporting [step]:
  "bind_io (send_reporting x owner client deployed c auth) f s =
     (if fault x (length (events s))
      then (Inl (Thrown TransportError),
            s\<lparr>events := events s @
                 [SendTransaction
                    (with_authorization
                       \<lparr>call_to = call_to c, call_value = call_value c, call_data = call_data c,
                        authorization = None\<rparr> auth) (Inl TransportError)],
              stderr := stderr s @
                 [[Text ''Transaction failed:'', MessageOf TransportError],
                  [Text ''Debug info:''],
                  [Text (''Account deployed: '' @ show_bool deployed)],
                  [Text (''Account address: '' @ account_address (client_account client))],
                  [Text (''Owner address: '' @ owner)],
                  [Text (''Authorization included: '' @ show_bool (auth \<noteq> None))]]\<rparr>)
      else (case bundler x (with_authorization
                       \<lparr>call_to = call_to c, call_value = call_value c, call_data = call_data c,
                        authorization = None\<rparr> auth) (chain s) of
              None \<Rightarrow>
                (Inl (Thrown TransportError),
                 s\<lparr>events := events s @
                      [SendTransaction
                         (with_authorization
                            \<lparr>call_to = call_to c, call_value = call_value c, call_data = call_data c,
                             authorization = None\<rparr> auth) (Inl TransportError)],
                   stderr := stderr s @
                      [[Text ''Transaction failed:'', MessageOf TransportError],
                       [Text ''Debug info:''],
                       [Text (''Account deployed: '' @ show_bool deployed)],
                       [Text (''Account address: '' @ account_address (client_account client))],
                       [Text (''Owner address: '' @ owner)],
                       [Text (''Authorization included: '' @ show_bool (auth \<noteq> None))]]\<rparr>)
            | Some (h, c') \<Rightarrow>
                f h (s\<lparr>events := events s @
                        [SendTransaction
                           (with_authorization
                              \<lparr>call_to = call_to c, call_value = call_value c, call_data = call_data c,
                               authorization = None\<rparr> auth) (Inr h)],
                      chain := c'\<rparr>)))"
  by (simp add: bind_io_def send_reporting_def sendTransaction_def external_def answered_def Let_def
           split: option.splits)

lemma bind_getSmartAccountClient [step]:
  "bind_io (getSmartAccountClient x owner) f (init_state c) =
     f \<lparr>client_object = Suc 0,
        client_account = \<lparr>account_object = 0, account_address = account_address_of x owner\<rparr>\<rparr>
       \<lparr>chain = c,
        events =
          [To7702SimpleSmartAccount owner
             \<lparr>account_object = 0, account_address = account_address_of x owner\<rparr>,
           CreateSmartAccountClient
             \<lparr>account_object = 0, account_address = account_address_of x owner\<rparr>
             \<lparr>client_object = Suc 0,
              client_account =
                \<lparr>account_object = 0, account_address = account_address_of x owner\<rparr>\<rparr>],
        stderr = [],
        simple7702Account_cache =
          Some \<lparr>account_object = 0, account_address = account_address_of x owner\<rparr>,
        smartAccountClient_cache =
          Some \<lparr>client_object = Suc 0,
                client_account =
                  \<lparr>account_object = 0, account_address = account_address_of x owner\<rparr>\<rparr>,
        allocated = Suc (Suc 0)\<rparr>"
  by (simp add: bind_io_def getSmartAccountClient_def getSmartAccountClient_start_def
        getSimple7702Account_start_def to7702SimpleSmartAccount_def createSmartAccountClient_def
        Let_def init_state_def)

lemma return_result [step]: "return_io v s = (Inr v, s)"
  by (simp add: return_io_def)

lemma throw_result [step]: "throw_io e s = (Inl (Thrown e), s)"
  by (simp add: throw_io_def)

lemma init_state_fields [step]:
  "events (init_state c) = []" "stderr (init_state c) = []" "chain (init_state c) = c"
  by (simp_all add: init_state_def)

lemmas script = step run_batch_def main_batch_def batch_flow_def run_single_def main_single_def
  await_receipt_def prepare_authorization_def before_submission_def

text \<open>The case splits of a run, and the definitions of the example worlds.\<close>

lemmas splits = sum.split prod.split option.split

lemmas examples = example_ext_def example_env_def example_chain_def deployed_chain_def
  example_receipt_def reverting_ext_def silent_ext_def checking_ext_def second_receiver_0x_def
  checking_owner_def checking_token_def checking_receiver_def hex_address_def hex_digit_def
  example_account_def example_client_def example_request_def example_authorization_def
  load_modules_def validate_batch_def validate_single_def startsWith_def

section \<open>The nonce of the authorization\<close>

lemma sign_batch:
  "(let R = run_batch x e (c\<lparr>account_nonce := k\<rparr>) in
    SignAuthorization signer req r \<in> set (trace R) \<longrightarrow>
      load_modules x e = Inr signer \<and> nonce req = transaction_count c signer \<and>
      contractAddress req = SIMPLE_ACCOUNT_LOGIC_ADDRESS \<and> chainId req = sepolia_id \<and>
      GetTransactionCount signer (Inr (nonce req)) \<in> set (before_submission (trace R)) \<and>
      IsDeployed (account_address_of x signer) (Inr False) \<in> set (before_submission (trace R)))"
  by (simp add: script split: splits)

lemma sign_single:
  "(let R = run_single x e (c\<lparr>account_nonce := k\<rparr>) in
    SignAuthorization signer req r \<in> set (trace R) \<longrightarrow>
      load_modules x e = Inr signer \<and> nonce req = transaction_count c signer \<and>
      contractAddress req = SIMPLE_ACCOUNT_LOGIC_ADDRESS \<and> chainId req = sepolia_id \<and>
      GetTransactionCount signer (Inr (nonce req)) \<in> set (before_submission (trace R)) \<and>
      IsDeployed (account_address_of x signer) (Inr False) \<in> set (before_submission (trace R)))"
  by (simp add: script split: splits)

text \<open>
  C1. Whenever one of the two transfer scripts signs an authorization, the signer is the
  owner loaded from \<^verbatim>\<open>PRIVATE_KEY\<close> and the nonce in the payload is the transaction count
  of the chain at the signer's own address, read by \<^verbatim>\<open>getTransactionCount\<close> before any
  submission and after the account was seen not deployed. The nonces that smart accounts
  keep for themselves (\<open>account_nonce\<close>, here set to an arbitrary \<open>k\<close>) play no part.
\<close>

theorem authorization_nonce_is_signer_transaction_count:
  assumes "R = run_batch x e (c\<lparr>account_nonce := k\<rparr>) \<or> R = run_single x e (c\<lparr>account_nonce := k\<rparr>)"
    and "SignAuthorization signer req r \<in> set (trace R)"
  shows "load_modules x e = Inr signer \<and> nonce req = transaction_count c signer \<and>
         contractAddress req = SIMPLE_ACCOUNT_LOGIC_ADDRESS \<and> chainId req = sepolia_id \<and>
         GetTransactionCount signer (Inr (nonce req)) \<in> set (before_submission (trace R)) \<and>
         IsDeployed (account_address_of x signer) (Inr False) \<in> set (before_submission (trace R))"
proof -
  from assms(1) show ?thesis
  proof
    assume run: "R = run_batch x e (c\<lparr>account_nonce := k\<rparr>)"
    show ?thesis
      using assms(2) unfolding run by (rule sign_batch [unfolded Let_def, rule_format])
  next
    assume run: "R = run_single x e (c\<lparr>account_nonce := k\<rparr>)"
    show ?thesis
      using assms(2) unfolding run by (rule sign_single [unfolded Let_def, rule_format])
  qed
qed

theorem authorization_nonce_is_signer_transaction_count_witness:
  "SignAuthorization ''0xA1'' example_request (Inr example_authorization)
     \<in> set (trace (run_batch example_ext example_env (example_chain\<lparr>account_nonce := (\<lambda>a. 99)\<rparr>))) \<and>
   nonce example_request = transaction_count example_chain ''0xA1'' \<and>
   load_modules example_ext example_env = Inr ''0xA1''"
proof -
  have h: "SignAuthorization ''0xA1'' example_request (Inr example_authorization)
     \<in> set (trace (run_batch example_ext example_env (example_chain\<lparr>account_nonce := (\<lambda>a. 99)\<rparr>)))"
    by (simp add: script examples)
  from authorization_nonce_is_signer_transaction_count [OF disjI1 [OF refl] h] h
  show ?thesis by simp
qed

section \<open>Presence of the authorization\<close>

lemma send_batch:
  "load_modules x e = Inr owner \<Longrightarrow>
   (let R = run_batch x e c in
    SendTransaction p r \<in> set (trace R) \<longrightarrow>
      (authorization p \<noteq> None) =
        (IsDeployed (account_address_of x owner) (Inr False) \<in> set (before_submission (trace R))) \<and>
      (authorization p = None) =
        (IsDeployed (account_address_of x owner) (Inr True) \<in> set (before_submission (trace R))) \<and>
      (authorization p \<noteq> None \<longrightarrow>
         authorization p =
           Some \<lparr>contractAddress = SIMPLE_ACCOUNT_LOGIC_ADDRESS, chainId = sepolia_id,
                 nonce = transaction_count c owner,
                 signature = signature_of x owner
                   \<lparr>contractAddress = SIMPLE_ACCOUNT_LOGIC_ADDRESS, chainId = sepolia_id,
                    nonce = transaction_count c owner\<rparr>\<rparr>))"
  by (simp add: script split: splits)

lemma send_single:
  "load_modules x e = Inr owner \<Longrightarrow>
   (let R = run_single x e c in
    SendTransaction p r \<in> set (trace R) \<longrightarrow>
      (authorization p \<noteq> None) =
        (IsDeployed (account_address_of x owner) (Inr False) \<in> set (before_submission (trace R))) \<and>
      (authorization p = None) =
        (IsDeployed (account_address_of x owner) (Inr True) \<in> set (before_submission (trace R))) \<and>
      (authorization p \<noteq> None \<longrightarrow>
         authorization p =
           Some \<lparr>contractAddress = SIMPLE_ACCOUNT_LOGIC_ADDRESS, chainId = sepolia_id,
                 nonce = transaction_count c owner,
                 signature = signature_of x owner
                   \<lparr>contractAddress = SIMPLE_ACCOUNT_LOGIC_ADDRESS, chainId = sepolia_id,
                    nonce = transaction_count c owner\<rparr>\<rparr>))"
  by (simp add: script split: splits)

text \<open>
  C2. In every run of either transfer script, the submitted parameters carry the key
  \<^verbatim>\<open>authorization\<close> exactly when the deployment check made before the submission
  answered false, and carry none exactly when it answered true. An attached authorization
  binds the SimpleAccount implementation address, the Sepolia chain id and the owner's
  transaction count, and is the one the owner signed.
\<close>

theorem authorization_attached_iff_not_deployed:
  assumes "R = run_batch x e c \<or> R = run_single x e c"
    and "load_modules x e = Inr owner"
    and "SendTransaction p r \<in> set (trace R)"
  shows "(authorization p \<noteq> None) =
           (IsDeployed (account_address_of x owner) (Inr False) \<in> set (before_submission (trace R))) \<and>
         (authorization p = None) =
           (IsDeployed (account_address_of x owner) (Inr True) \<in> set (before_submission (trace R))) \<and>
         (authorization p \<noteq> None \<longrightarrow>
            authorization p =
              Some \<lparr>contractAddress = SIMPLE_ACCOUNT_LOGIC_ADDRESS, chainId = sepolia_id,
                    nonce = transaction_count c owner,
                    signature = signature_of x owner
                      \<lparr>contractAddress = SIMPLE_ACCOUNT_LOGIC_ADDRESS, chainId = sepolia_id,
                       nonce = transaction_count c owner\<rparr>\<rparr>)"
proof -
  from assms(1) show ?thesis
  proof
    assume run: "R = run_batch x e c"
    show ?thesis
      using assms(3) unfolding run
      by (rule send_batch [OF assms(2), unfolded Let_def, rule_format])
  next
    assume run: "R = run_single x e c"
    show ?thesis
      using assms(3) unfolding run
      by (rule send_single [OF assms(2), unfolded Let_def, rule_format])
  qed
qed

theorem authorization_attached_iff_not_deployed_witness:
  "load_modules example_ext example_env = Inr ''0xA1'' \<and>
   SendTransaction
     \<lparr>call_to = ''0xT'', call_value = 0, call_data = ''transfer:0xR1'',
      authorization = Some example_authorization\<rparr> (Inr ''0xhash'')
     \<in> set (trace (run_single example_ext example_env example_chain)) \<and>
   IsDeployed ''0xA1'' (Inr False)
     \<in> set (before_submission (trace (run_single example_ext example_env example_chain))) \<and>
   SendTransaction
     \<lparr>call_to = ''0xT'', call_value = 0, call_data = ''transfer:0xR1'',
      authorization = None\<rparr> (Inr ''0xhash'')
     \<in> set (trace (run_single example_ext example_env deployed_chain)) \<and>
   IsDeployed ''0xA1'' (Inr True)
     \<in> set (before_submission (trace (run_single example_ext example_env deployed_chain)))"
proof -
  have owner: "load_modules example_ext example_env = Inr ''0xA1''"
    by (simp add: examples)
  have first: "SendTransaction
     \<lparr>call_to = ''0xT'', call_value = 0, call_data = ''transfer:0xR1'',
      authorization = Some example_authorization\<rparr> (Inr ''0xhash'')
     \<in> set (trace (run_single example_ext example_env example_chain))"
    by (simp add: script examples)
  have later: "SendTransaction
     \<lparr>call_to = ''0xT'', call_value = 0, call_data = ''transfer:0xR1'',
      authorization = None\<rparr> (Inr ''0xhash'')
     \<in> set (trace (run_single example_ext example_env deployed_chain))"
    by (simp add: script examples)
  have address: "account_address_of example_ext ''0xA1'' = ''0xA1''"
    by (simp add: example_ext_def)
  from authorization_attached_iff_not_deployed [OF disjI2 [OF refl] owner first]
       authorization_attached_iff_not_deployed [OF disjI2 [OF refl] owner later]
       owner first later
  show ?thesis unfolding address by simp
qed

section \<open>A reverted receipt\<close>

lemma reverted_batch:
  "(let R = run_batch x e c in
    WaitForTransactionReceipt h t (Inr rc) \<in> set (trace R) \<longrightarrow> status rc = Reverted \<longrightarrow>
      exit_code R = 1 \<and> diagnostics R = [[Text ''Transaction reverted!'']] \<and>
      submissions (trace R) = 1 \<and>
      last (trace R) = WaitForTransactionReceipt h t (Inr rc))"
  by (simp add: script split: splits)

lemma reverted_single:
  "(let R = run_single x e c in
    WaitForTransactionReceipt h t (Inr rc) \<in> set (trace R) \<longrightarrow> status rc = Reverted \<longrightarrow>
      exit_code R = 1 \<and> diagnostics R = [[Text ''Transaction reverted!'']] \<and>
      submissions (trace R) = 1 \<and>
      last (trace R) = WaitForTransactionReceipt h t (Inr rc))"
  by (simp add: script split: splits)

text \<open>
  C5. In every run of either transfer script whose receipt wait answers with a receipt of
  status \<^verbatim>\<open>reverted\<close>, the process exits with code 1 after writing the line
  \<^verbatim>\<open>Transaction reverted!\<close> with \<^verbatim>\<open>console.error\<close>. The run holds exactly one
  submission, the one for the whole operation, and the wait is its last external call:
  nothing is submitted again.
\<close>

theorem reverted_receipt_ends_the_run_with_exit_1:
  assumes "R = run_batch x e c \<or> R = run_single x e c"
    and "WaitForTransactionReceipt h t (Inr rc) \<in> set (trace R)"
    and "status rc = Reverted"
  shows "exit_code R = 1 \<and> diagnostics R = [[Text ''Transaction reverted!'']] \<and>
         submissions (trace R) = 1 \<and>
         last (trace R) = WaitForTransactionReceipt h t (Inr rc)"
proof -
  from assms(1) show ?thesis
  proof
    assume run: "R = run_batch x e c"
    show ?thesis
      using assms(2,3) unfolding run by (rule reverted_batch [unfolded Let_def, rule_format])
  next
    assume run: "R = run_single x e c"
    show ?thesis
      using assms(2,3) unfolding run by (rule reverted_single [unfolded Let_def, rule_format])
  qed
qed

theorem reverted_receipt_ends_the_run_with_exit_1_witness:
  "WaitForTransactionReceipt ''0xhash'' 120000 (Inr (example_receipt\<lparr>status := Reverted\<rparr>))
     \<in> set (trace (run_batch reverting_ext example_env example_chain)) \<and>
   status (example_receipt\<lparr>status := Reverted\<rparr>) = Reverted \<and>
   exit_code (run_batch reverting_ext example_env example_chain) = 1 \<and>
   diagnostics (run_batch reverting_ext example_env example_chain) = [[Text ''Transaction reverted!'']] \<and>
   submissions (trace (run_batch reverting_ext example_env example_chain)) = 1"
proof -
  have included: "WaitForTransactionReceipt ''0xhash'' 120000 (Inr (example_receipt\<lparr>status := Reverted\<rparr>))
     \<in> set (trace (run_batch reverting_ext example_env example_chain))"
    by (simp add: script examples)
  have reverted: "status (example_receipt\<lparr>status := Reverted\<rparr>) = Reverted"
    by simp
  from reverted_receipt_ends_the_run_with_exit_1 [OF disjI1 [OF refl] included reverted]
       included reverted
  show ?thesis by simp
qed

section \<open>Destination of the submission\<close>

lemma destination_batch:
  "load_modules x e = Inr owner \<Longrightarrow>
   (let R = run_batch x e c in
    (SendTransaction p r \<in> set (trace R) \<longrightarrow>
       call_to p = account_address_of x owner \<and> call_value p = 0 \<and>
       call_data p =
         encode_batch x
           [\<lparr>call_to = env_string (ERC20_TOKEN_ADDRESS e), call_value = 0,
             call_data = encode_transfer x (env_string (RECEIVER_ADDRESS e)) (10 * 10 ^ 18)\<rparr>,
            \<lparr>call_to = env_string (ERC20_TOKEN_ADDRESS e), call_value = 0,
             call_data = encode_transfer x (env_string (RECEIVER_ADDRESS2 e)) (20 * 10 ^ 18)\<rparr>]) \<and>
    submissions (trace R) \<le> 1 \<and>
    (exit_code R = 0 \<longrightarrow> submissions (trace R) = 1))"
  by (simp add: script validate_batch_def split: splits)

lemma destination_single:
  "load_modules x e = Inr owner \<Longrightarrow>
   (let R = run_single x e c in
    (SendTransaction p r \<in> set (trace R) \<longrightarrow>
       call_to p = env_string (ERC20_TOKEN_ADDRESS e) \<and> call_value p = 0 \<and>
       call_data p = encode_transfer x (env_string (RECEIVER_ADDRESS e)) (10 * 10 ^ 18)) \<and>
    submissions (trace R) \<le> 1 \<and>
    (exit_code R = 0 \<longrightarrow> submissions (trace R) = 1))"
  by (simp add: script validate_single_def split: splits)


text \<open>
  C6. The batch script submits to the smart account's own address, with the data that
  \<^verbatim>\<open>encodeCalls\<close> returned for the two transfers; the single transfer script submits to
  the token contract, the target of its one call, with that call's own data. Either script
  submits at most once, and a run that ends normally has submitted exactly once.
\<close>

theorem submission_destination_follows_call_shape:
  assumes "load_modules x e = Inr owner"
  shows "(SendTransaction p r \<in> set (trace (run_batch x e c)) \<longrightarrow>
            call_to p = account_address_of x owner \<and> call_value p = 0 \<and>
            call_data p =
              encode_batch x
                [\<lparr>call_to = env_string (ERC20_TOKEN_ADDRESS e), call_value = 0,
                  call_data = encode_transfer x (env_string (RECEIVER_ADDRESS e)) (10 * 10 ^ 18)\<rparr>,
                 \<lparr>call_to = env_string (ERC20_TOKEN_ADDRESS e), call_value = 0,
                  call_data = encode_transfer x (env_string (RECEIVER_ADDRESS2 e)) (20 * 10 ^ 18)\<rparr>]) \<and>
         (SendTransaction p r \<in> set (trace (run_single x e c)) \<longrightarrow>
            call_to p = env_string (ERC20_TOKEN_ADDRESS e) \<and> call_value p = 0 \<and>
            call_data p = encode_transfer x (env_string (RECEIVER_ADDRESS e)) (10 * 10 ^ 18)) \<and>
         submissions (trace (run_batch x e c)) \<le> 1 \<and>
         submissions (trace (run_single x e c)) \<le> 1 \<and>
         (exit_code (run_batch x e c) = 0 \<longrightarrow> submissions (trace (run_batch x e c)) = 1) \<and>
         (exit_code (run_single x e c) = 0 \<longrightarrow> submissions (trace (run_single x e c)) = 1)"
proof -
  note batch = destination_batch [OF assms, unfolded Let_def]
  note single = destination_single [OF assms, unfolded Let_def]
  from batch single show ?thesis by blast
qed

theorem submission_destination_follows_call_shape_witness:
  "load_modules example_ext example_env = Inr ''0xA1'' \<and>
   SendTransaction
     \<lparr>call_to = ''0xA1'', call_value = 0,
      call_data = example_encoding
        [\<lparr>call_to = ''0xT'', call_value = 0, call_data = ''transfer:0xR1''\<rparr>,
         \<lparr>call_to = ''0xT'', call_value = 0, call_data = ''transfer:0xR2''\<rparr>],
      authorization = Some example_authorization\<rparr> (Inr ''0xhash'')
     \<in> set (trace (run_batch example_ext example_env example_chain)) \<and>
   SendTransaction
     \<lparr>call_to = ''0xT'', call_value = 0, call_data = ''transfer:0xR1'',
      authorization = Some example_authorization\<rparr> (Inr ''0xhash'')
     \<in> set (trace (run_single example_ext example_env example_chain)) \<and>
   exit_code (run_batch example_ext example_env example_chain) = 0 \<and>
   exit_code (run_single example_ext example_env example_chain) = 0 \<and>
   submissions (trace (run_batch example_ext example_env example_chain)) = 1 \<and>
   submissions (trace (run_single example_ext example_env example_chain)) = 1"
proof -
  have owner: "load_modules example_ext example_env = Inr ''0xA1''"
    by (simp add: examples)
  have batch: "SendTransaction
     \<lparr>call_to = ''0xA1'', call_value = 0,
      call_data = example_encoding
        [\<lparr>call_to = ''0xT'', call_value = 0, call_data = ''transfer:0xR1''\<rparr>,
         \<lparr>call_to = ''0xT'', call_value = 0, call_data = ''transfer:0xR2''\<rparr>],
      authorization = Some example_authorization\<rparr> (Inr ''0xhash'')
     \<in> set (trace (run_batch example_ext example_env example_chain))"
    by (simp add: script examples)
  have single: "SendTransaction
     \<lparr>call_to = ''0xT'', call_value = 0, call_data = ''transfer:0xR1'',
      authorization = Some example_authorization\<rparr> (Inr ''0xhash'')
     \<in> set (trace (run_single example_ext example_env example_chain))"
    by (simp add: script examples)
  have done_batch: "exit_code (run_batch example_ext example_env example_chain) = 0"
    by (simp add: script examples)
  have done_single: "exit_code (run_single example_ext example_env example_chain) = 0"
    by (simp add: script examples)
  from submission_destination_follows_call_shape [OF owner]
       owner batch single done_batch done_single
  show ?thesis by blast
qed

section \<open>The receipt wait\<close>

lemma wait_batch:
  "(let R = run_batch x e c in
    (WaitForTransactionReceipt h t r \<in> set (trace R) \<longrightarrow> t = 120000) \<and>
    (SendTransaction p (Inr h') \<in> set (trace R) \<longrightarrow>
       (\<exists>r'. WaitForTransactionReceipt h' 120000 r' \<in> set (trace R))) \<and>
    (WaitForTransactionReceipt h t (Inl TimeoutError) \<in> set (trace R) \<longrightarrow>
       exit_code R = 1 \<and> last (trace R) = WaitForTransactionReceipt h t (Inl TimeoutError) \<and>
       diagnostics R = [[Text ''Fatal error:'', ErrorObject TimeoutError]]))"
  by (simp add: script split: splits)

lemma wait_single:
  "(let R = run_single x e c in
    (WaitForTransactionReceipt h t r \<in> set (trace R) \<longrightarrow> t = 120000) \<and>
    (SendTransaction p (Inr h') \<in> set (trace R) \<longrightarrow>
       (\<exists>r'. WaitForTransactionReceipt h' 120000 r' \<in> set (trace R))) \<and>
    (WaitForTransactionReceipt h t (Inl TimeoutError) \<in> set (trace R) \<longrightarrow>
       exit_code R = 1 \<and> last (trace R) = WaitForTransactionReceipt h t (Inl TimeoutError) \<and>
       diagnostics R = [[Text ''Error:'', MessageOf TimeoutError],
                        [Text ''Full error:'', ErrorObject TimeoutError]]))"
  by (simp add: script split: splits)


text \<open>
  C7, as stated, asks that a timeout of the wait be treated as an unknown outcome and not as
  a failure. The scripts do the opposite: the timeout error of the wait is thrown out of
  \<^verbatim>\<open>main\<close> and reaches the same \<^verbatim>\<open>main().catch\<close> handler as every other fatal error, which
  ends the process with exit code 1, the exit code of a run whose transaction reverted. In
  the world where the submission returns the hash \<^verbatim>\<open>0xhash\<close> and no receipt arrives within
  the timeout, both scripts end as failures.
\<close>

theorem timed_out_wait_ends_as_a_failure:
  "WaitForTransactionReceipt ''0xhash'' 120000 (Inl TimeoutError)
     \<in> set (trace (run_batch silent_ext example_env example_chain)) \<and>
   exit_code (run_batch silent_ext example_env example_chain) = 1 \<and>
   diagnostics (run_batch silent_ext example_env example_chain) =
     [[Text ''Fatal error:'', ErrorObject TimeoutError]] \<and>
   exit_code (run_batch reverting_ext example_env example_chain) = 1 \<and>
   WaitForTransactionReceipt ''0xhash'' 120000 (Inl TimeoutError)
     \<in> set (trace (run_single silent_ext example_env example_chain)) \<and>
   exit_code (run_single silent_ext example_env example_chain) = 1 \<and>
   diagnostics (run_single silent_ext example_env example_chain) =
     [[Text ''Error:'', MessageOf TimeoutError], [Text ''Full error:'', ErrorObject TimeoutError]] \<and>
   exit_code (run_single reverting_ext example_env example_chain) = 1"
  by (simp add: script examples)

text \<open>
  C7, amended. Every receipt wait of either transfer script is made with a timeout of 120000
  milliseconds, and a submission that returned a hash is followed by such a wait for that
  hash. When the wait runs into the timeout, the run ends there as a failure: exit code 1,
  the wait is the last external call, and the catch handler prints the timeout error of the
  wait (the batch script as \<^verbatim>\<open>Fatal error:\<close> with the error object, the single script as
  \<^verbatim>\<open>Error:\<close> with its message and \<^verbatim>\<open>Full error:\<close> with the error object). The report of a
  reverted transaction is not printed. Nothing in the run marks the outcome as unknown.
\<close>

theorem timed_out_wait_fails_with_the_timeout_error:
  assumes "R = run_batch x e c \<or> R = run_single x e c"
  shows "(WaitForTransactionReceipt h t r \<in> set (trace R) \<longrightarrow> t = 120000) \<and>
         (SendTransaction p (Inr h') \<in> set (trace R) \<longrightarrow>
            (\<exists>r'. WaitForTransactionReceipt h' 120000 r' \<in> set (trace R))) \<and>
         (WaitForTransactionReceipt h t (Inl TimeoutError) \<in> set (trace R) \<longrightarrow>
            exit_code R = 1 \<and>
            last (trace R) = WaitForTransactionReceipt h t (Inl TimeoutError) \<and>
            (R = run_batch x e c \<longrightarrow>
               diagnostics R = [[Text ''Fatal error:'', ErrorObject TimeoutError]]) \<and>
            (R = run_single x e c \<longrightarrow>
               diagnostics R = [[Text ''Error:'', MessageOf TimeoutError],
                                [Text ''Full error:'', ErrorObject TimeoutError]]) \<and>
            [Text ''Transaction reverted!''] \<notin> set (diagnostics R))"
proof -
  note batch = wait_batch [where x=x and e=e and c=c and h=h and t=t and r=r and p=p and h'=h',
                           unfolded Let_def]
  note single = wait_single [where x=x and e=e and c=c and h=h and t=t and r=r and p=p and h'=h',
                             unfolded Let_def]
  from assms show ?thesis
  proof
    assume run: "R = run_batch x e c"
    have "run_batch x e c = run_single x e c \<longrightarrow>
          WaitForTransactionReceipt h t (Inl TimeoutError) \<in> set (trace (run_batch x e c)) \<longrightarrow>
          diagnostics (run_batch x e c) =
            [[Text ''Error:'', MessageOf TimeoutError], [Text ''Full error:'', ErrorObject TimeoutError]]"
      using single by metis
    with batch show ?thesis unfolding run by auto
  next
    assume run: "R = run_single x e c"
    have "run_single x e c = run_batch x e c \<longrightarrow>
          WaitForTransactionReceipt h t (Inl TimeoutError) \<in> set (trace (run_single x e c)) \<longrightarrow>
          diagnostics (run_single x e c) = [[Text ''Fatal error:'', ErrorObject TimeoutError]]"
      using batch by metis
    with single show ?thesis unfolding run by auto
  qed
qed

theorem timed_out_wait_fails_with_the_timeout_error_witness:
  "SendTransaction
     \<lparr>call_to = ''0xT'', call_value = 0, call_data = ''transfer:0xR1'',
      authorization = Some example_authorization\<rparr> (Inr ''0xhash'')
     \<in> set (trace (run_single silent_ext example_env example_chain)) \<and>
   WaitForTransactionReceipt ''0xhash'' 120000 (Inl TimeoutError)
     \<in> set (trace (run_single silent_ext example_env example_chain)) \<and>
   exit_code (run_single silent_ext example_env example_chain) = 1 \<and>
   last (trace (run_single silent_ext example_env example_chain)) =
     WaitForTransactionReceipt ''0xhash'' 120000 (Inl TimeoutError) \<and>
   diagnostics (run_single silent_ext example_env example_chain) =
     [[Text ''Error:'', MessageOf TimeoutError], [Text ''Full error:'', ErrorObject TimeoutError]] \<and>
   [Text ''Transaction reverted!'']
     \<notin> set (diagnostics (run_single silent_ext example_env example_chain))"
proof -
  have sent: "SendTransaction
     \<lparr>call_to = ''0xT'', call_value = 0, call_data = ''transfer:0xR1'',
      authorization = Some example_authorization\<rparr> (Inr ''0xhash'')
     \<in> set (trace (run_single silent_ext example_env example_chain))"
    by (simp add: script examples)
  have timed_out: "WaitForTransactionReceipt ''0xhash'' 120000 (Inl TimeoutError)
     \<in> set (trace (run_single silent_ext example_env example_chain))"
    by (simp add: script examples)
  from timed_out_wait_fails_with_the_timeout_error
         [OF disjI2 [OF refl], where h="''0xhash''" and t=120000 and r="Inl TimeoutError"]
       sent timed_out
  show ?thesis by blast
qed

section \<open>Checks of the batch configuration\<close>

lemma validation_failure_batch:
  "load_modules x e = Inr owner \<Longrightarrow> validate_batch e = Inl err \<Longrightarrow>
   run_batch x e c =
     \<lparr>exit_code = 1, trace = [],
      diagnostics = [[Text ''Fatal error:'', ErrorObject err]], final_chain = c\<rparr>"
  by (simp add: run_batch_def main_batch_def step)

lemma refused_receiver_ends_at_the_reads:
  "load_modules x e = Inr owner \<Longrightarrow> validate_batch e = Inr (token, first, second) \<Longrightarrow>
   \<not> isAddress x second \<Longrightarrow>
   (let R = run_batch x e c in
      exit_code R = 1 \<and> submissions (trace R) = 0 \<and>
      EncodeTransfer r n d \<notin> set (trace R) \<and>
      (\<exists>a. last (trace R) = ReadBalanceOf token second (Inl a)))"
  by (simp add: script answered_def address_argument_def split: splits)

lemma refused_receiver_is_reported:
  "load_modules x e = Inr owner \<Longrightarrow> validate_batch e = Inr (token, first, second) \<Longrightarrow>
   \<not> isAddress x second \<Longrightarrow> \<forall>n. \<not> fault x n \<Longrightarrow>
   isAddress x (account_address_of x owner) \<Longrightarrow> isAddress x first \<Longrightarrow>
   (let R = run_batch x e c in
      last (trace R) = ReadBalanceOf token second (Inl (InvalidAddressError second)) \<and>
      diagnostics R = [[Text ''Fatal error:'', ErrorObject (InvalidAddressError second)]])"
  by (simp add: script answered_def address_argument_def split: splits)

text \<open>
  C10, as stated, ends with the value \<^verbatim>\<open>'0x'\<close> of \<^verbatim>\<open>RECEIVER_ADDRESS2\<close> being used as a
  transfer destination. It is not: \<^verbatim>\<open>main\<close> first reads the token balance of the second
  receiver, and viem refuses \<^verbatim>\<open>'0x'\<close> as the \<^verbatim>\<open>balanceOf\<close> argument because it is not an
  address. In the world whose address check asks for forty hexadecimal digits, the run with
  \<^verbatim>\<open>RECEIVER_ADDRESS2 = '0x'\<close> passes the checks of the configuration, constructs the account
  and the client, issues the three balance reads and ends there with exit code 1: no
  transfer is encoded and nothing is submitted.
\<close>

theorem second_receiver_0x_is_never_a_transfer_destination:
  "validate_batch second_receiver_0x = Inr (checking_token, checking_receiver, ''0x'') \<and>
   trace (run_batch checking_ext second_receiver_0x example_chain) =
     [To7702SimpleSmartAccount checking_owner
        \<lparr>account_object = 0, account_address = checking_owner\<rparr>,
      CreateSmartAccountClient
        \<lparr>account_object = 0, account_address = checking_owner\<rparr>
        \<lparr>client_object = 1,
         client_account = \<lparr>account_object = 0, account_address = checking_owner\<rparr>\<rparr>,
      ReadBalanceOf checking_token checking_owner (Inr 100),
      ReadBalanceOf checking_token checking_receiver (Inr 100),
      ReadBalanceOf checking_token ''0x'' (Inl (InvalidAddressError ''0x''))] \<and>
   exit_code (run_batch checking_ext second_receiver_0x example_chain) = 1 \<and>
   diagnostics (run_batch checking_ext second_receiver_0x example_chain) =
     [[Text ''Fatal error:'', ErrorObject (InvalidAddressError ''0x'')]] \<and>
   final_chain (run_batch checking_ext second_receiver_0x example_chain) = example_chain"
  by (simp add: script examples answered_def address_argument_def)

text \<open>
  C10, amended. The checks of the batch script are not the same for the two receivers. A
  token address or first receiver that is unset, empty or equal to \<^verbatim>\<open>'0x'\<close> is refused with a
  configuration error, and the run ends with exit code 1 before any external call. The second
  receiver is refused only when it is unset or empty (JavaScript's \<^verbatim>\<open>!receiver2\<close>): the
  value \<^verbatim>\<open>'0x'\<close> passes the checks. It does not become a transfer destination: when the
  address check of viem refuses \<^verbatim>\<open>'0x'\<close>, the run ends with exit code 1 at the balance read
  of the second receiver, before any transfer is encoded and without a submission; when no
  call is rejected for another reason, the error reported is the invalid address \<^verbatim>\<open>'0x'\<close>.
\<close>

theorem second_receiver_0x_passes_the_checks_and_fails_the_read:
  "(falsy (ERC20_TOKEN_ADDRESS e) \<or> ERC20_TOKEN_ADDRESS e = Some ''0x'' \<longrightarrow>
      validate_batch e = Inl (ConfigurationError ''ERC20_TOKEN_ADDRESS is missing in .env'')) \<and>
   (\<not> (falsy (ERC20_TOKEN_ADDRESS e) \<or> ERC20_TOKEN_ADDRESS e = Some ''0x'') \<and>
    (falsy (RECEIVER_ADDRESS e) \<or> RECEIVER_ADDRESS e = Some ''0x'') \<longrightarrow>
      validate_batch e = Inl (ConfigurationError ''RECEIVER_ADDRESS is missing in .env'')) \<and>
   (\<not> (falsy (ERC20_TOKEN_ADDRESS e) \<or> ERC20_TOKEN_ADDRESS e = Some ''0x'') \<and>
    \<not> (falsy (RECEIVER_ADDRESS e) \<or> RECEIVER_ADDRESS e = Some ''0x'') \<longrightarrow>
      (validate_batch e = Inl (ConfigurationError ''RECEIVER_ADDRESS2 is missing in .env''))
        = falsy (RECEIVER_ADDRESS2 e) \<and>
      (RECEIVER_ADDRESS2 e = Some ''0x'' \<longrightarrow>
         validate_batch e =
           Inr (env_string (ERC20_TOKEN_ADDRESS e), env_string (RECEIVER_ADDRESS e), ''0x'') \<and>
         (load_modules x e = Inr owner \<and> \<not> isAddress x ''0x'' \<longrightarrow>
            exit_code (run_batch x e c) = 1 \<and>
            submissions (trace (run_batch x e c)) = 0 \<and>
            EncodeTransfer r n d \<notin> set (trace (run_batch x e c)) \<and>
            (\<exists>a. last (trace (run_batch x e c)) =
                    ReadBalanceOf (env_string (ERC20_TOKEN_ADDRESS e)) ''0x'' (Inl a)) \<and>
            ((\<forall>k. \<not> fault x k) \<and> isAddress x (account_address_of x owner) \<and>
             isAddress x (env_string (RECEIVER_ADDRESS e)) \<longrightarrow>
               last (trace (run_batch x e c)) =
                 ReadBalanceOf (env_string (ERC20_TOKEN_ADDRESS e)) ''0x''
                   (Inl (InvalidAddressError ''0x'')) \<and>
               diagnostics (run_batch x e c) =
                 [[Text ''Fatal error:'', ErrorObject (InvalidAddressError ''0x'')]])))) \<and>
   (load_modules x e = Inr owner \<and> validate_batch e = Inl err \<longrightarrow>
      exit_code (run_batch x e c) = 1 \<and> trace (run_batch x e c) = [])"
proof -
  have refused: "load_modules x e = Inr owner \<and> validate_batch e = Inl err \<longrightarrow>
      exit_code (run_batch x e c) = 1 \<and> trace (run_batch x e c) = []"
    by (simp add: validation_failure_batch)
  have ends: "validate_batch e = Inr (token, receiver1, ''0x'') \<Longrightarrow>
      load_modules x e = Inr owner \<and> \<not> isAddress x ''0x'' \<longrightarrow>
        exit_code (run_batch x e c) = 1 \<and>
        submissions (trace (run_batch x e c)) = 0 \<and>
        EncodeTransfer r n d \<notin> set (trace (run_batch x e c)) \<and>
        (\<exists>a. last (trace (run_batch x e c)) = ReadBalanceOf token ''0x'' (Inl a))"
    for token receiver1
    using refused_receiver_ends_at_the_reads
            [where x=x and e=e and owner=owner and c=c and token=token and first=receiver1
               and second="''0x''" and r=r and n=n and d=d, unfolded Let_def]
    by blast
  have reported: "validate_batch e = Inr (token, receiver1, ''0x'') \<Longrightarrow>
      load_modules x e = Inr owner \<and> \<not> isAddress x ''0x'' \<longrightarrow>
      (\<forall>k. \<not> fault x k) \<and> isAddress x (account_address_of x owner) \<and> isAddress x receiver1 \<longrightarrow>
        last (trace (run_batch x e c)) =
          ReadBalanceOf token ''0x'' (Inl (InvalidAddressError ''0x'')) \<and>
        diagnostics (run_batch x e c) =
          [[Text ''Fatal error:'', ErrorObject (InvalidAddressError ''0x'')]]"
    for token receiver1
    using refused_receiver_is_reported
            [where x=x and e=e and owner=owner and c=c and token=token and first=receiver1
               and second="''0x''", unfolded Let_def]
    by blast
  have checks:
    "(falsy (ERC20_TOKEN_ADDRESS e) \<or> ERC20_TOKEN_ADDRESS e = Some ''0x'' \<longrightarrow>
        validate_batch e = Inl (ConfigurationError ''ERC20_TOKEN_ADDRESS is missing in .env'')) \<and>
     (\<not> (falsy (ERC20_TOKEN_ADDRESS e) \<or> ERC20_TOKEN_ADDRESS e = Some ''0x'') \<and>
      (falsy (RECEIVER_ADDRESS e) \<or> RECEIVER_ADDRESS e = Some ''0x'') \<longrightarrow>
        validate_batch e = Inl (ConfigurationError ''RECEIVER_ADDRESS is missing in .env'')) \<and>
     (\<not> (falsy (ERC20_TOKEN_ADDRESS e) \<or> ERC20_TOKEN_ADDRESS e = Some ''0x'') \<and>
      \<not> (falsy (RECEIVER_ADDRESS e) \<or> RECEIVER_ADDRESS e = Some ''0x'') \<longrightarrow>
        (validate_batch e = Inl (ConfigurationError ''RECEIVER_ADDRESS2 is missing in .env''))
          = falsy (RECEIVER_ADDRESS2 e) \<and>
        (RECEIVER_ADDRESS2 e = Some ''0x'' \<longrightarrow>
           validate_batch e =
             Inr (env_string (ERC20_TOKEN_ADDRESS e), env_string (RECEIVER_ADDRESS e), ''0x'')))"
    by (simp add: validate_batch_def)
  from checks refused
       ends [of "env_string (ERC20_TOKEN_ADDRESS e)" "env_string (RECEIVER_ADDRESS e)"]
       reported [of "env_string (ERC20_TOKEN_ADDRESS e)" "env_string (RECEIVER_ADDRESS e)"]
  show ?thesis by blast
qed

theorem second_receiver_0x_passes_the_checks_and_fails_the_read_witness:
  "validate_batch (second_receiver_0x\<lparr>ERC20_TOKEN_ADDRESS := Some ''0x''\<rparr>) =
     Inl (ConfigurationError ''ERC20_TOKEN_ADDRESS is missing in .env'') \<and>
   validate_batch (second_receiver_0x\<lparr>RECEIVER_ADDRESS := Some ''0x''\<rparr>) =
     Inl (ConfigurationError ''RECEIVER_ADDRESS is missing in .env'') \<and>
   validate_batch (second_receiver_0x\<lparr>RECEIVER_ADDRESS2 := None\<rparr>) =
     Inl (ConfigurationError ''RECEIVER_ADDRESS2 is missing in .env'') \<and>
   trace (run_batch checking_ext (second_receiver_0x\<lparr>ERC20_TOKEN_ADDRESS := Some ''0x''\<rparr>)
            example_chain) = [] \<and>
   validate_batch second_receiver_0x = Inr (checking_token, checking_receiver, ''0x'') \<and>
   exit_code (run_batch checking_ext second_receiver_0x example_chain) = 1 \<and>
   submissions (trace (run_batch checking_ext second_receiver_0x example_chain)) = 0 \<and>
   EncodeTransfer ''0x'' (20 * 10 ^ 18) (Inr ''transfer:0x'')
     \<notin> set (trace (run_batch checking_ext second_receiver_0x example_chain)) \<and>
   last (trace (run_batch checking_ext second_receiver_0x example_chain)) =
     ReadBalanceOf checking_token ''0x'' (Inl (InvalidAddressError ''0x'')) \<and>
   diagnostics (run_batch checking_ext second_receiver_0x example_chain) =
     [[Text ''Fatal error:'', ErrorObject (InvalidAddressError ''0x'')]]"
proof -
  have token:
    "falsy (ERC20_TOKEN_ADDRESS (second_receiver_0x\<lparr>ERC20_TOKEN_ADDRESS := Some ''0x''\<rparr>)) \<or>
     ERC20_TOKEN_ADDRESS (second_receiver_0x\<lparr>ERC20_TOKEN_ADDRESS := Some ''0x''\<rparr>) = Some ''0x''"
    by simp
  have first:
    "\<not> (falsy (ERC20_TOKEN_ADDRESS (second_receiver_0x\<lparr>RECEIVER_ADDRESS := Some ''0x''\<rparr>)) \<or>
        ERC20_TOKEN_ADDRESS (second_receiver_0x\<lparr>RECEIVER_ADDRESS := Some ''0x''\<rparr>) = Some ''0x'') \<and>
     (falsy (RECEIVER_ADDRESS (second_receiver_0x\<lparr>RECEIVER_ADDRESS := Some ''0x''\<rparr>)) \<or>
      RECEIVER_ADDRESS (second_receiver_0x\<lparr>RECEIVER_ADDRESS := Some ''0x''\<rparr>) = Some ''0x'')"
    by (simp add: examples)
  have unset:
    "\<not> (falsy (ERC20_TOKEN_ADDRESS (second_receiver_0x\<lparr>RECEIVER_ADDRESS2 := None\<rparr>)) \<or>
        ERC20_TOKEN_ADDRESS (second_receiver_0x\<lparr>RECEIVER_ADDRESS2 := None\<rparr>) = Some ''0x'') \<and>
     \<not> (falsy (RECEIVER_ADDRESS (second_receiver_0x\<lparr>RECEIVER_ADDRESS2 := None\<rparr>)) \<or>
        RECEIVER_ADDRESS (second_receiver_0x\<lparr>RECEIVER_ADDRESS2 := None\<rparr>) = Some ''0x'')"
    "falsy (RECEIVER_ADDRESS2 (second_receiver_0x\<lparr>RECEIVER_ADDRESS2 := None\<rparr>))"
    by (simp_all add: examples)
  have second:
    "\<not> (falsy (ERC20_TOKEN_ADDRESS second_receiver_0x) \<or>
        ERC20_TOKEN_ADDRESS second_receiver_0x = Some ''0x'') \<and>
     \<not> (falsy (RECEIVER_ADDRESS second_receiver_0x) \<or>
        RECEIVER_ADDRESS second_receiver_0x = Some ''0x'')"
    "RECEIVER_ADDRESS2 second_receiver_0x = Some ''0x''"
    "env_string (ERC20_TOKEN_ADDRESS second_receiver_0x) = checking_token"
    "env_string (RECEIVER_ADDRESS second_receiver_0x) = checking_receiver"
    by (simp_all add: examples)
  have world:
    "load_modules checking_ext second_receiver_0x = Inr checking_owner"
    "load_modules checking_ext (second_receiver_0x\<lparr>ERC20_TOKEN_ADDRESS := Some ''0x''\<rparr>) =
       Inr checking_owner"
    "\<forall>k. \<not> fault checking_ext k"
    "\<not> isAddress checking_ext ''0x''"
    "isAddress checking_ext (account_address_of checking_ext checking_owner)"
    "isAddress checking_ext checking_receiver"
    by (simp_all add: examples)
  note claim = second_receiver_0x_passes_the_checks_and_fails_the_read
  from claim [where e="second_receiver_0x\<lparr>ERC20_TOKEN_ADDRESS := Some ''0x''\<rparr>"
                and x=checking_ext and owner=checking_owner and c=example_chain
                and err="ConfigurationError ''ERC20_TOKEN_ADDRESS is missing in .env''"]
       token world
  have a: "validate_batch (second_receiver_0x\<lparr>ERC20_TOKEN_ADDRESS := Some ''0x''\<rparr>) =
             Inl (ConfigurationError ''ERC20_TOKEN_ADDRESS is missing in .env'') \<and>
           trace (run_batch checking_ext (second_receiver_0x\<lparr>ERC20_TOKEN_ADDRESS := Some ''0x''\<rparr>)
                    example_chain) = []"
    by blast
  from claim [where e="second_receiver_0x\<lparr>RECEIVER_ADDRESS := Some ''0x''\<rparr>"] first
  have b: "validate_batch (second_receiver_0x\<lparr>RECEIVER_ADDRESS := Some ''0x''\<rparr>) =
             Inl (ConfigurationError ''RECEIVER_ADDRESS is missing in .env'')"
    by blast
  from claim [where e="second_receiver_0x\<lparr>RECEIVER_ADDRESS2 := None\<rparr>"] unset
  have c: "validate_batch (second_receiver_0x\<lparr>RECEIVER_ADDRESS2 := None\<rparr>) =
             Inl (ConfigurationError ''RECEIVER_ADDRESS2 is missing in .env'')"
    by blast
  from claim [where e=second_receiver_0x and x=checking_ext and owner=checking_owner
                and c=example_chain and r="''0x''" and n="20 * 10 ^ 18"
                and d="Inr ''transfer:0x''"]
       second world
  have d: "validate_batch second_receiver_0x = Inr (checking_token, checking_receiver, ''0x'') \<and>
           exit_code (run_batch checking_ext second_receiver_0x example_chain) = 1 \<and>
           submissions (trace (run_batch checking_ext second_receiver_0x example_chain)) = 0 \<and>
           EncodeTransfer ''0x'' (20 * 10 ^ 18) (Inr ''transfer:0x'')
             \<notin> set (trace (run_batch checking_ext second_receiver_0x example_chain)) \<and>
           last (trace (run_batch checking_ext second_receiver_0x example_chain)) =
             ReadBalanceOf checking_token ''0x'' (Inl (InvalidAddressError ''0x'')) \<and>
           diagnostics (run_batch checking_ext second_receiver_0x example_chain) =
             [[Text ''Fatal error:'', ErrorObject (InvalidAddressError ''0x'')]]"
    by metis
  from a b c d show ?thesis by blast
qed

section \<open>Order of the batched calls\<close>

lemma replicate_separator:
  "replicate n a @ b # u = replicate m a @ b # v \<Longrightarrow> a \<noteq> b \<Longrightarrow> n = m \<and> u = v"
proof (induction n arbitrary: m)
  case 0
  then show ?case by (cases m) auto
next
  case (Suc n)
  then show ?case by (cases m) auto
qed

lemma length_prefixed_inj:
  assumes "length_prefixed a @ u = length_prefixed b @ v"
  shows "a = b \<and> u = v"
proof -
  from assms have "replicate (length a) (CHR ''1'') @ CHR ''0'' # (a @ u) =
      replicate (length b) (CHR ''1'') @ CHR ''0'' # (b @ v)"
    by (simp add: length_prefixed_def)
  then have "length a = length b \<and> a @ u = b @ v"
    by (rule replicate_separator) simp
  then show ?thesis by auto
qed

lemma example_value_inj:
  assumes "example_value i @ u = example_value j @ v"
  shows "i = j \<and> u = v"
proof -
  from assms have sign: "(i < 0) = (j < 0)"
    by (auto simp: example_value_def split: if_splits)
  from assms have "replicate (nat \<bar>i\<bar>) (CHR ''1'') @ CHR ''0'' # u =
      replicate (nat \<bar>j\<bar>) (CHR ''1'') @ CHR ''0'' # v"
    by (simp add: example_value_def)
  then have "nat \<bar>i\<bar> = nat \<bar>j\<bar> \<and> u = v"
    by (rule replicate_separator) simp
  with sign show ?thesis by auto
qed

lemma example_call_inj:
  assumes "example_call c @ u = example_call d @ v"
  shows "c = d \<and> u = v"
proof -
  from assms have "length_prefixed (call_to c) @ (example_value (call_value c) @ length_prefixed (call_data c) @ u) =
      length_prefixed (call_to d) @ (example_value (call_value d) @ length_prefixed (call_data d) @ v)"
    by (simp add: example_call_def)
  then have to: "call_to c = call_to d"
    and rest: "example_value (call_value c) @ (length_prefixed (call_data c) @ u) =
      example_value (call_value d) @ (length_prefixed (call_data d) @ v)"
    by (auto dest: length_prefixed_inj)
  from rest have val: "call_value c = call_value d"
    and rest': "length_prefixed (call_data c) @ u = length_prefixed (call_data d) @ v"
    by (auto dest: example_value_inj)
  from rest' have "call_data c = call_data d \<and> u = v"
    by (rule length_prefixed_inj)
  with to val show ?thesis by simp
qed

lemma example_encoding_eq: "example_encoding cs = example_encoding ds \<Longrightarrow> cs = ds"
proof (induction cs arbitrary: ds)
  case Nil
  then show ?case by (cases ds) (auto simp: example_encoding_def example_call_def)
next
  case (Cons c cs)
  show ?case
  proof (cases ds)
    case Nil
    with Cons.prems show ?thesis by (auto simp: example_encoding_def example_call_def)
  next
    case (Cons d ds')
    with Cons.prems have "example_call c @ example_encoding cs = example_call d @ example_encoding ds'"
      by (simp add: example_encoding_def)
    then have "c = d \<and> example_encoding cs = example_encoding ds'"
      by (rule example_call_inj)
    with Cons.IH Cons show ?thesis by auto
  qed
qed

lemma example_encoding_inj: "inj example_encoding"
  by (rule injI) (rule example_encoding_eq)


lemma encoded_in_flow_fields:
  "(let s' = snd (batch_flow x owner client t r1 r2 calls
           \<lparr>chain = c, events = evs, stderr = d, simple7702Account_cache = ca,
            smartAccountClient_cache = cc, allocated = n\<rparr>) in
    (EncodeCalls cs r \<in> set (events s') \<longrightarrow> EncodeCalls cs r \<notin> set evs \<longrightarrow> cs = calls) \<and>
    (SendTransaction p h \<in> set (events s') \<longrightarrow> SendTransaction p h \<notin> set evs \<longrightarrow>
       call_data p = encode_batch x calls))"
  by (simp add: script split: splits)

lemma encoded_in_flow:
  "(EncodeCalls cs r \<in> set (events (snd (batch_flow x owner client t r1 r2 calls s))) \<longrightarrow>
      EncodeCalls cs r \<notin> set (events s) \<longrightarrow> cs = calls) \<and>
   (SendTransaction p h \<in> set (events (snd (batch_flow x owner client t r1 r2 calls s))) \<longrightarrow>
      SendTransaction p h \<notin> set (events s) \<longrightarrow> call_data p = encode_batch x calls)"
proof (cases s)
  case (fields c evs d ca cc n)
  show ?thesis
    unfolding fields using encoded_in_flow_fields [where evs=evs and c=c and d=d and ca=ca and cc=cc
      and n=n and cs=cs and r=r and p=p and h=h and x=x and owner=owner and client=client
      and calls=calls and ?r1.0=r1 and ?r2.0=r2 and t=t]
    by (simp add: Let_def)
qed

lemma encoded_in_batch:
  "EncodeCalls cs r \<in> set (trace (run_batch x e c)) \<longrightarrow>
     cs = [\<lparr>call_to = env_string (ERC20_TOKEN_ADDRESS e), call_value = 0,
            call_data = encode_transfer x (env_string (RECEIVER_ADDRESS e)) (10 * 10 ^ 18)\<rparr>,
           \<lparr>call_to = env_string (ERC20_TOKEN_ADDRESS e), call_value = 0,
            call_data = encode_transfer x (env_string (RECEIVER_ADDRESS2 e)) (20 * 10 ^ 18)\<rparr>]"
  by (simp add: script validate_batch_def split: splits)

text \<open>
  C3. The flow hands the call list to \<^verbatim>\<open>encodeCalls\<close> exactly as it received it, for a
  list of any length, and submits the data that \<^verbatim>\<open>encodeCalls\<close> returned for it. So when
  the encoding of the external account is injective, the only call list that the submitted
  data decodes to is the original one: the same (destination, value, data) triples in the
  same order. The list that the batch script assembles is the transfer to the first
  receiver followed by the transfer to the second. The encoding itself belongs to the
  external account object and is a parameter here.
\<close>

theorem batch_encoding_keeps_call_order:
  "(EncodeCalls cs r \<in> set (events (snd (batch_flow x owner client t r1 r2 calls s))) \<and>
    EncodeCalls cs r \<notin> set (events s) \<longrightarrow> cs = calls) \<and>
   (SendTransaction p h \<in> set (events (snd (batch_flow x owner client t r1 r2 calls s))) \<and>
    SendTransaction p h \<notin> set (events s) \<longrightarrow>
      call_data p = encode_batch x calls \<and>
      (inj (encode_batch x) \<longrightarrow> (\<forall>cs'. encode_batch x cs' = call_data p \<longrightarrow> cs' = calls))) \<and>
   (EncodeCalls cs r \<in> set (trace (run_batch x e c)) \<longrightarrow>
      cs = [\<lparr>call_to = env_string (ERC20_TOKEN_ADDRESS e), call_value = 0,
             call_data = encode_transfer x (env_string (RECEIVER_ADDRESS e)) (10 * 10 ^ 18)\<rparr>,
            \<lparr>call_to = env_string (ERC20_TOKEN_ADDRESS e), call_value = 0,
             call_data = encode_transfer x (env_string (RECEIVER_ADDRESS2 e)) (20 * 10 ^ 18)\<rparr>])"
proof -
  note flow = encoded_in_flow [of cs r x owner client t r1 r2 calls s p h]
  have decoded: "call_data p = encode_batch x calls \<Longrightarrow> inj (encode_batch x) \<Longrightarrow>
      \<forall>cs'. encode_batch x cs' = call_data p \<longrightarrow> cs' = calls"
    by (auto dest: injD)
  from flow decoded encoded_in_batch [of cs r x e c] show ?thesis
    by blast
qed

theorem batch_encoding_keeps_call_order_witness:
  "EncodeCalls
     [\<lparr>call_to = ''0xT'', call_value = 0, call_data = ''transfer:0xR1''\<rparr>,
      \<lparr>call_to = ''0xT'', call_value = 0, call_data = ''transfer:0xR2''\<rparr>]
     (Inr (example_encoding
       [\<lparr>call_to = ''0xT'', call_value = 0, call_data = ''transfer:0xR1''\<rparr>,
        \<lparr>call_to = ''0xT'', call_value = 0, call_data = ''transfer:0xR2''\<rparr>]))
     \<in> set (trace (run_batch example_ext example_env example_chain)) \<and>
   SendTransaction
     \<lparr>call_to = ''0xA1'', call_value = 0,
      call_data = example_encoding
        [\<lparr>call_to = ''0xT'', call_value = 0, call_data = ''transfer:0xR2''\<rparr>,
         \<lparr>call_to = ''0xT'', call_value = 0, call_data = ''transfer:0xR1''\<rparr>],
      authorization = Some example_authorization\<rparr> (Inr ''0xhash'')
     \<in> set (events (snd (batch_flow example_ext ''0xA1'' example_client ''0xT'' ''0xR1'' ''0xR2''
          [\<lparr>call_to = ''0xT'', call_value = 0, call_data = ''transfer:0xR2''\<rparr>,
           \<lparr>call_to = ''0xT'', call_value = 0, call_data = ''transfer:0xR1''\<rparr>]
          (init_state example_chain)))) \<and>
   EncodeCalls
     [\<lparr>call_to = ''0xT'', call_value = 0, call_data = ''transfer:0xR2''\<rparr>,
           \<lparr>call_to = ''0xT'', call_value = 0, call_data = ''transfer:0xR1''\<rparr>]
     (Inr (example_encoding
       [\<lparr>call_to = ''0xT'', call_value = 0, call_data = ''transfer:0xR2''\<rparr>,
           \<lparr>call_to = ''0xT'', call_value = 0, call_data = ''transfer:0xR1''\<rparr>]))
     \<in> set (events (snd (batch_flow example_ext ''0xA1'' example_client ''0xT'' ''0xR1'' ''0xR2''
          [\<lparr>call_to = ''0xT'', call_value = 0, call_data = ''transfer:0xR2''\<rparr>,
           \<lparr>call_to = ''0xT'', call_value = 0, call_data = ''transfer:0xR1''\<rparr>]
          (init_state example_chain)))) \<and>
   inj (encode_batch example_ext) \<and>
   encode_batch example_ext
       [\<lparr>call_to = ''0xT'', call_value = 0, call_data = ''transfer:0xR1''\<rparr>,
        \<lparr>call_to = ''0xT'', call_value = 0, call_data = ''transfer:0xR2''\<rparr>] \<noteq>
     example_encoding
       [\<lparr>call_to = ''0xT'', call_value = 0, call_data = ''transfer:0xR2''\<rparr>,
        \<lparr>call_to = ''0xT'', call_value = 0, call_data = ''transfer:0xR1''\<rparr>]"
proof -
  have encoded: "EncodeCalls
     [\<lparr>call_to = ''0xT'', call_value = 0, call_data = ''transfer:0xR1''\<rparr>,
      \<lparr>call_to = ''0xT'', call_value = 0, call_data = ''transfer:0xR2''\<rparr>]
     (Inr (example_encoding
       [\<lparr>call_to = ''0xT'', call_value = 0, call_data = ''transfer:0xR1''\<rparr>,
        \<lparr>call_to = ''0xT'', call_value = 0, call_data = ''transfer:0xR2''\<rparr>]))
     \<in> set (trace (run_batch example_ext example_env example_chain))"
    by (simp add: script examples)
  have sent: "SendTransaction
     \<lparr>call_to = ''0xA1'', call_value = 0,
      call_data = example_encoding
        [\<lparr>call_to = ''0xT'', call_value = 0, call_data = ''transfer:0xR2''\<rparr>,
         \<lparr>call_to = ''0xT'', call_value = 0, call_data = ''transfer:0xR1''\<rparr>],
      authorization = Some example_authorization\<rparr> (Inr ''0xhash'')
     \<in> set (events (snd (batch_flow example_ext ''0xA1'' example_client ''0xT'' ''0xR1'' ''0xR2''
          [\<lparr>call_to = ''0xT'', call_value = 0, call_data = ''transfer:0xR2''\<rparr>,
           \<lparr>call_to = ''0xT'', call_value = 0, call_data = ''transfer:0xR1''\<rparr>]
          (init_state example_chain))))"
    by (simp add: script examples)
  have passed: "EncodeCalls
     [\<lparr>call_to = ''0xT'', call_value = 0, call_data = ''transfer:0xR2''\<rparr>,
           \<lparr>call_to = ''0xT'', call_value = 0, call_data = ''transfer:0xR1''\<rparr>]
     (Inr (example_encoding
       [\<lparr>call_to = ''0xT'', call_value = 0, call_data = ''transfer:0xR2''\<rparr>,
           \<lparr>call_to = ''0xT'', call_value = 0, call_data = ''transfer:0xR1''\<rparr>]))
     \<in> set (events (snd (batch_flow example_ext ''0xA1'' example_client ''0xT'' ''0xR1'' ''0xR2''
          [\<lparr>call_to = ''0xT'', call_value = 0, call_data = ''transfer:0xR2''\<rparr>,
           \<lparr>call_to = ''0xT'', call_value = 0, call_data = ''transfer:0xR1''\<rparr>]
          (init_state example_chain))))"
    by (simp add: script examples)
  have fresh: "SendTransaction
     \<lparr>call_to = ''0xA1'', call_value = 0,
      call_data = example_encoding
        [\<lparr>call_to = ''0xT'', call_value = 0, call_data = ''transfer:0xR2''\<rparr>,
         \<lparr>call_to = ''0xT'', call_value = 0, call_data = ''transfer:0xR1''\<rparr>],
      authorization = Some example_authorization\<rparr> (Inr ''0xhash'')
     \<notin> set (events (init_state example_chain))"
    by (simp add: init_state_def)
  have injective: "inj (encode_batch example_ext)"
    by (simp add: example_ext_def example_encoding_inj)
  from batch_encoding_keeps_call_order
         [where x=example_ext and owner="''0xA1''" and client=example_client and t="''0xT''"
            and ?r1.0="''0xR1''" and ?r2.0="''0xR2''" and s="init_state example_chain"
            and calls="[\<lparr>call_to = ''0xT'', call_value = 0, call_data = ''transfer:0xR2''\<rparr>,
                        \<lparr>call_to = ''0xT'', call_value = 0, call_data = ''transfer:0xR1''\<rparr>]"
            and p="\<lparr>call_to = ''0xA1'', call_value = 0,
                     call_data = example_encoding
                       [\<lparr>call_to = ''0xT'', call_value = 0, call_data = ''transfer:0xR2''\<rparr>,
                        \<lparr>call_to = ''0xT'', call_value = 0, call_data = ''transfer:0xR1''\<rparr>],
                     authorization = Some example_authorization\<rparr>"
            and h="Inr ''0xhash''"]
       sent fresh injective
  have order: "\<forall>cs'. encode_batch example_ext cs' =
            example_encoding
              [\<lparr>call_to = ''0xT'', call_value = 0, call_data = ''transfer:0xR2''\<rparr>,
               \<lparr>call_to = ''0xT'', call_value = 0, call_data = ''transfer:0xR1''\<rparr>] \<longrightarrow>
          cs' = [\<lparr>call_to = ''0xT'', call_value = 0, call_data = ''transfer:0xR2''\<rparr>,
                 \<lparr>call_to = ''0xT'', call_value = 0, call_data = ''transfer:0xR1''\<rparr>]"
    by simp
  have swapped:
    "[\<lparr>call_to = ''0xT'', call_value = 0, call_data = ''transfer:0xR1''\<rparr>,
      \<lparr>call_to = ''0xT'', call_value = 0, call_data = ''transfer:0xR2''\<rparr>] \<noteq>
     [\<lparr>call_to = ''0xT'', call_value = 0, call_data = ''transfer:0xR2''\<rparr>,
      \<lparr>call_to = ''0xT'', call_value = 0, call_data = ''transfer:0xR1''\<rparr>]"
    by simp
  from order swapped have other: "encode_batch example_ext
       [\<lparr>call_to = ''0xT'', call_value = 0, call_data = ''transfer:0xR1''\<rparr>,
        \<lparr>call_to = ''0xT'', call_value = 0, call_data = ''transfer:0xR2''\<rparr>] \<noteq>
     example_encoding
       [\<lparr>call_to = ''0xT'', call_value = 0, call_data = ''transfer:0xR2''\<rparr>,
        \<lparr>call_to = ''0xT'', call_value = 0, call_data = ''transfer:0xR1''\<rparr>]"
    by blast
  from encoded sent passed injective other show ?thesis by blast
qed

section \<open>The deployment check\<close>

lemma reads_keep_chain:
  "chain (snd (external x ev a s)) = chain s"
  by (simp add: external_def Let_def)

text \<open>
  C8. The deployment check reads the chain and leaves it as it is. Two checks of the same
  account that succeed one directly after the other answer the same boolean, and so do any
  two checks made against the same chain state, whatever the transport conditions of each.
  None of the other calls that are not a submission (transaction count, balance read,
  signing, encoding, receipt wait) changes the chain either.
\<close>

theorem deployment_check_is_repeatable:
  "(isDeployed x a s = (Inr b1, s1) \<and> isDeployed x a s1 = (Inr b2, s2) \<longrightarrow> b1 = b2) \<and>
   (isDeployed x a s = (Inr b1, s1) \<and> chain s' = chain s \<and> isDeployed x' a s' = (Inr b2, s2) \<longrightarrow>
      b1 = b2) \<and>
   chain (snd (isDeployed x a s)) = chain s \<and>
   chain (snd (getTransactionCount x owner s)) = chain s \<and>
   chain (snd (readContract_balanceOf x token holder s)) = chain s \<and>
   chain (snd (signAuthorization x owner req s)) = chain s \<and>
   chain (snd (encodeFunctionData_transfer x recipient amount s)) = chain s \<and>
   chain (snd (encodeCalls x cs s)) = chain s \<and>
   chain (snd (waitForTransactionReceipt x h t s)) = chain s"
proof -
  have answer: "b = code_at (chain st) (account_address a)"
    if "isDeployed y a st = (Inr b, st')" for y st b st'
    using that by (auto simp: isDeployed_def external_def answered_def Let_def split: if_splits)
  have kept: "chain st' = chain st" if "isDeployed y a st = (r, st')" for y st r st'
    using that by (auto simp: isDeployed_def external_def Let_def)
  have twice: "isDeployed x a s = (Inr b1, s1) \<and> isDeployed x a s1 = (Inr b2, s2) \<longrightarrow> b1 = b2"
    using answer kept by metis
  have same_chain: "isDeployed x a s = (Inr b1, s1) \<and> chain s' = chain s \<and>
      isDeployed x' a s' = (Inr b2, s2) \<longrightarrow> b1 = b2"
    using answer by metis
  have frame:
    "chain (snd (isDeployed x a s)) = chain s"
    "chain (snd (getTransactionCount x owner s)) = chain s"
    "chain (snd (readContract_balanceOf x token holder s)) = chain s"
    "chain (snd (signAuthorization x owner req s)) = chain s"
    "chain (snd (encodeFunctionData_transfer x recipient amount s)) = chain s"
    "chain (snd (encodeCalls x cs s)) = chain s"
    "chain (snd (waitForTransactionReceipt x h t s)) = chain s"
    by (simp_all add: isDeployed_def getTransactionCount_def readContract_balanceOf_def
          signAuthorization_def encodeFunctionData_transfer_def encodeCalls_def
          waitForTransactionReceipt_def reads_keep_chain)
  from twice same_chain frame show ?thesis by blast
qed

theorem deployment_check_is_repeatable_witness:
  "isDeployed example_ext example_account (init_state example_chain) =
     (Inr False, snd (isDeployed example_ext example_account (init_state example_chain))) \<and>
   isDeployed example_ext example_account
       (snd (isDeployed example_ext example_account (init_state example_chain))) =
     (Inr False,
      snd (isDeployed example_ext example_account
             (snd (isDeployed example_ext example_account (init_state example_chain))))) \<and>
   chain (init_state deployed_chain) \<noteq> chain (init_state example_chain) \<and>
   fst (isDeployed example_ext example_account (init_state deployed_chain)) = Inr True"
proof -
  have first: "isDeployed example_ext example_account (init_state example_chain) =
     (Inr False, snd (isDeployed example_ext example_account (init_state example_chain)))"
    by (simp add: isDeployed_def external_def answered_def Let_def examples init_state_def)
  have second: "isDeployed example_ext example_account
       (snd (isDeployed example_ext example_account (init_state example_chain))) =
     (Inr False,
      snd (isDeployed example_ext example_account
             (snd (isDeployed example_ext example_account (init_state example_chain)))))"
    by (simp add: isDeployed_def external_def answered_def Let_def examples init_state_def)
  have other: "fst (isDeployed example_ext example_account (init_state deployed_chain)) = Inr True"
    by (simp add: isDeployed_def external_def answered_def Let_def examples init_state_def)
  have differs: "chain (init_state deployed_chain) \<noteq> chain (init_state example_chain)"
  proof
    assume "chain (init_state deployed_chain) = chain (init_state example_chain)"
    then have "code_at deployed_chain ''0xA1'' = code_at example_chain ''0xA1''"
      by (simp add: init_state_def)
    then show False by (simp add: examples)
  qed
  from deployment_check_is_repeatable
         [where x=example_ext and a=example_account and s="init_state example_chain"
            and ?b1.0=False and ?b2.0=False
            and ?s1.0="snd (isDeployed example_ext example_account (init_state example_chain))"
            and ?s2.0="snd (isDeployed example_ext example_account
                     (snd (isDeployed example_ext example_account (init_state example_chain))))"]
       first second other differs
  show ?thesis by blast
qed

section \<open>The cached account and client\<close>
























end
